theory Spec2Isabelle
  imports Complex_Main
begin

section \<open>The JavaScript runtime, as far as the memory lifecycle uses it\<close>

text \<open>
  Conventions of the embedding.
  \<^item> A \<open>Date\<close> is its epoch value in milliseconds, an \<open>int\<close>; the ISO strings the
    database stores are not modelled (they round-trip through \<open>new Date(iso)\<close> and
    are ordered as the epoch values are, for years 0000 to 9999).
  \<^item> A JavaScript number is \<open>jsnum\<close>: an exact rational value, NaN or an infinity;
    lengths, counts and the importance that the heuristic computes are \<open>nat\<close> and
    \<open>int\<close>. The binary rounding of doubles is outside the model.
  \<^item> A string is a \<open>char list\<close>.
  \<^item> The clock, the uuid generator and the two formatting built-ins the code calls
    (\<open>Number.prototype.toFixed(1)\<close>, \<open>Date.prototype.toISOString().split('T')[0]\<close>)
    are parameters, collected in \<open>runtime\<close>; nothing is assumed about them.
  \<^item> The database is modelled by its tables and by the constraints that can fail on
    the data the code writes: with \<open>PRAGMA foreign_keys = ON\<close>, a memory must reference
    a stored conversation (or none) and a dreamstate update a stored persona, and the
    importance of a memory must not be NULL, which is what NaN is stored as. Failures
    of the driver itself (a disk error) are not a branch of the model.
  \<^item> An \<open>async\<close> method that its caller awaits is a function from the state to a
    result and the state after it. The one call that is not awaited, in \<open>awaken\<close>,
    runs up to its first \<open>await\<close>; what is left of it is kept in the world as work in
    flight.
\<close>

record runtime =
  rt_clock :: "nat \<Rightarrow> int"
  rt_uuid :: "nat \<Rightarrow> string"
  rt_toFixed1 :: "rat \<Rightarrow> string"
  rt_isoDate :: "int \<Rightarrow> string"

datatype error = Error string

text \<open>An argument a caller may leave out or pass as null.\<close>

datatype jsval = Undefined | Null | Str string

fun toStr :: "jsval \<Rightarrow> string" where
  "toStr Undefined = ''undefined''"
| "toStr Null = ''null''"
| "toStr (Str s) = s"

text \<open>
  A JavaScript number: a finite value, NaN, or an infinity. The functions below are
  the comparison, \<open>Math.max\<close>, \<open>Math.min\<close>, addition and subtraction on them: NaN is
  neither below nor above anything, and any operation on NaN gives NaN.
\<close>

datatype jsnum = Num rat | NaN | PosInfinity | NegInfinity

fun js_le :: "jsnum \<Rightarrow> jsnum \<Rightarrow> bool" where
  "js_le NaN b = False"
| "js_le a NaN = False"
| "js_le NegInfinity b = True"
| "js_le a PosInfinity = True"
| "js_le (Num x) (Num y) = (x \<le> y)"
| "js_le PosInfinity b = False"
| "js_le a NegInfinity = False"

definition js_lt :: "jsnum \<Rightarrow> jsnum \<Rightarrow> bool" where
  "js_lt a b = (js_le a b \<and> a \<noteq> b)"

definition js_ge :: "jsnum \<Rightarrow> jsnum \<Rightarrow> bool" where
  "js_ge a b = js_le b a"

definition Math_max :: "jsnum \<Rightarrow> jsnum \<Rightarrow> jsnum" where
  "Math_max a b = (if a = NaN \<or> b = NaN then NaN else if js_le a b then b else a)"

definition Math_min :: "jsnum \<Rightarrow> jsnum \<Rightarrow> jsnum" where
  "Math_min a b = (if a = NaN \<or> b = NaN then NaN else if js_le a b then a else b)"

fun js_add :: "jsnum \<Rightarrow> jsnum \<Rightarrow> jsnum" where
  "js_add NaN b = NaN"
| "js_add a NaN = NaN"
| "js_add (Num x) (Num y) = Num (x + y)"
| "js_add PosInfinity NegInfinity = NaN"
| "js_add NegInfinity PosInfinity = NaN"
| "js_add PosInfinity b = PosInfinity"
| "js_add a PosInfinity = PosInfinity"
| "js_add NegInfinity b = NegInfinity"
| "js_add a NegInfinity = NegInfinity"

fun js_neg :: "jsnum \<Rightarrow> jsnum" where
  "js_neg (Num x) = Num (- x)"
| "js_neg NaN = NaN"
| "js_neg PosInfinity = NegInfinity"
| "js_neg NegInfinity = PosInfinity"

definition js_sub :: "jsnum \<Rightarrow> jsnum \<Rightarrow> jsnum" where
  "js_sub a b = js_add a (js_neg b)"

text \<open>\<open>a !== b\<close> on numbers: NaN differs from itself.\<close>

definition js_strict_neq :: "jsnum \<Rightarrow> jsnum \<Rightarrow> bool" where
  "js_strict_neq a b = (a \<noteq> b \<or> a = NaN)"

text \<open>
  A numeric argument of a call is given as the number that it converts to (the
  \<open>ToNumber\<close> that \<open>Math.max\<close> applies to its arguments): a number is itself, null is
  0, true is 1, a non-numeric string or an object is NaN. None is undefined, an argument
  that was left out; it converts to NaN. A Symbol or a BigInt, on which the conversion
  throws, is outside the model.
\<close>

definition toNumber :: "jsnum option \<Rightarrow> jsnum" where
  "toNumber v = (case v of None \<Rightarrow> NaN | Some n \<Rightarrow> n)"

text \<open>\<open>s.substring(0, e)\<close>: a negative end counts as 0, an end beyond the length as the length.\<close>

definition substring0 :: "string \<Rightarrow> int \<Rightarrow> string" where
  "substring0 s e = take (nat e) s"

text \<open>\<open>s.lastIndexOf(c)\<close> for a one-character search string: the last index, or -1.\<close>

fun lastIndexOf :: "string \<Rightarrow> char \<Rightarrow> int" where
  "lastIndexOf [] c = -1"
| "lastIndexOf (x # xs) c =
     (let r = lastIndexOf xs c
      in if 0 \<le> r then r + 1 else if x = c then 0 else -1)"

fun startsWith :: "string \<Rightarrow> string \<Rightarrow> bool" where
  "startsWith s [] = True"
| "startsWith [] (p # ps) = False"
| "startsWith (x # xs) (p # ps) = (x = p \<and> startsWith xs ps)"

text \<open>\<open>s.includes(sub)\<close>.\<close>

fun str_includes :: "string \<Rightarrow> string \<Rightarrow> bool" where
  "str_includes [] sub = (sub = [])"
| "str_includes (x # xs) sub = (startsWith (x # xs) sub \<or> str_includes xs sub)"

text \<open>\<open>xs.join(sep)\<close>.\<close>

fun join :: "string \<Rightarrow> string list \<Rightarrow> string" where
  "join sep [] = []"
| "join sep [x] = x"
| "join sep (x # y # ys) = x @ sep @ join sep (y # ys)"

text \<open>\<open>toLowerCase\<close> on the ASCII letters; other characters are left as they are.\<close>

definition lowerChar :: "char \<Rightarrow> char" where
  "lowerChar c =
     (let n = (of_char c :: nat) in if 65 \<le> n \<and> n \<le> 90 then char_of (n + 32) else c)"

definition toLowerCase :: "string \<Rightarrow> string" where
  "toLowerCase s = map lowerChar s"

text \<open>\<open>[...new Set(xs)]\<close>: the first occurrence of each element, in order.\<close>

fun uniq :: "'a list \<Rightarrow> 'a list \<Rightarrow> 'a list" where
  "uniq seen [] = []"
| "uniq seen (x # xs) = (if x \<in> set seen then uniq seen xs else x # uniq (seen @ [x]) xs)"

section \<open>The world outside the objects: clock, uuid generator, tables, console\<close>

text \<open>A line of console output: \<open>console.log\<close>, \<open>console.warn\<close>, and \<open>console.error\<close>
  with a label and the error object.\<close>

datatype console_line = Log string | Warn string | ErrorLine string error

text \<open>
  The objects of the four model classes. Field names carry a prefix (\<open>c_\<close>, \<open>m_\<close>,
  \<open>p_\<close>, \<open>u_\<close>) because record fields share one name space; \<open>c_ctx\<close> is the field
  \<open>context\<close> of a conversation, and a message is the triple of its role, content and
  timestamp.
\<close>

record conversation =
  c_conversationId :: string
  c_startTime :: int
  c_endTime :: "int option"
  c_participants :: "string list"
  c_rawText :: string
  c_ctx :: string
  c_messages :: "(jsval \<times> jsval \<times> int) list"

record memory =
  m_memoryId :: string
  m_conversationId :: "string option"
  m_summary :: string
  m_importance :: jsnum
  m_timestamp :: int
  m_tags :: "string list"

record persona =
  p_personaId :: string
  p_traits :: "string \<rightharpoonup> jsnum"
  p_values :: "string \<rightharpoonup> jsnum"
  p_preferences :: "string \<rightharpoonup> string"
  p_biography :: string
  p_lastUpdated :: int

record pstate =
  st_traits :: "string \<rightharpoonup> jsnum"
  st_values :: "string \<rightharpoonup> jsnum"
  st_preferences :: "string \<rightharpoonup> string"
  st_biography :: string

record dreamstate_update =
  u_updateId :: string
  u_personaId :: string
  u_description :: string
  u_justification :: string
  u_previousState :: pstate
  u_newState :: pstate
  u_timestamp :: int

text \<open>
  Work that a call left behind. \<open>awaken\<close> calls \<open>startConversation\<close> without \<open>await\<close>,
  so it returns when \<open>startConversation\<close> has reached its first \<open>await\<close>: the save of
  a conversation, whose insert has been issued with the values that the conversation
  had at that moment and has not been carried out yet. The rest of \<open>startConversation\<close>
  runs once the insert has been carried out.
  \<^item> \<open>StartedSave c\<close>: the pending insert is the save of the new conversation \<open>c\<close>.
  \<^item> \<open>EndingSave c participants ctx\<close>: a conversation was open, and the pending insert
    is the save of that conversation, ended, in the \<open>endConversation\<close> that
    \<open>startConversation\<close> awaits first; \<open>participants\<close> and \<open>ctx\<close> are the arguments of
    \<open>startConversation\<close>.
\<close>

datatype deferred =
    StartedSave conversation
  | EndingSave conversation "string list" string

text \<open>
  The four tables hold the objects that \<open>save()\<close> wrote, in rowid order. The composite
  columns (tags, participants, traits, state snapshots) are kept as the values whose JSON
  text the column holds; a conversation row has no messages (they are not a column).
  \<open>dateCalls\<close> and \<open>uuidCalls\<close> count the evaluations of \<open>new Date()\<close> and
  \<open>uuidv4()\<close> so far. \<open>inflight\<close> is the work left behind by calls that were not
  awaited, oldest first, and \<open>unhandled\<close> collects the rejections of such calls, which
  no caller receives.
\<close>

record world =
  dateCalls :: nat
  uuidCalls :: nat
  persona_tbl :: "persona list"
  conversations_tbl :: "conversation list"
  memories_tbl :: "memory list"
  dreamstate_updates_tbl :: "dreamstate_update list"
  console :: "console_line list"
  inflight :: "deferred list"
  unhandled :: "error list"

definition newDate :: "runtime \<Rightarrow> world \<Rightarrow> int \<times> world" where
  "newDate rt w = (rt_clock rt (dateCalls w), w\<lparr>dateCalls := Suc (dateCalls w)\<rparr>)"

definition uuidv4 :: "runtime \<Rightarrow> world \<Rightarrow> string \<times> world" where
  "uuidv4 rt w = (rt_uuid rt (uuidCalls w), w\<lparr>uuidCalls := Suc (uuidCalls w)\<rparr>)"

text \<open>\<open>id || uuidv4()\<close>: null and the empty string are falsy.\<close>

definition idOrFresh :: "runtime \<Rightarrow> string option \<Rightarrow> world \<Rightarrow> string \<times> world" where
  "idOrFresh rt i w =
     (case i of
        None \<Rightarrow> uuidv4 rt w
      | Some s \<Rightarrow> if s \<noteq> [] then (s, w) else uuidv4 rt w)"

text \<open>\<open>timestamp || new Date()\<close>: a Date object is truthy, null is not.\<close>

definition dateOrNow :: "runtime \<Rightarrow> int option \<Rightarrow> world \<Rightarrow> int \<times> world" where
  "dateOrNow rt t w = (case t of None \<Rightarrow> newDate rt w | Some d \<Rightarrow> (d, w))"

definition console_log :: "string \<Rightarrow> world \<Rightarrow> world" where
  "console_log s w = w\<lparr>console := console w @ [Log s]\<rparr>"

definition console_warn :: "string \<Rightarrow> world \<Rightarrow> world" where
  "console_warn s w = w\<lparr>console := console w @ [Warn s]\<rparr>"

text \<open>The error of an insert whose foreign key references no row.\<close>

definition foreign_key_failed :: error where
  "foreign_key_failed = Error ''SQLITE_CONSTRAINT: FOREIGN KEY constraint failed''"

text \<open>The error of an insert that gives NULL to the importance column of a memory.\<close>

definition not_null_failed :: error where
  "not_null_failed = Error ''SQLITE_CONSTRAINT: NOT NULL constraint failed: memories.importance''"

text \<open>\<open>INSERT OR REPLACE\<close>: a row with the same primary key is deleted, the new row is
  appended.\<close>

definition upsert :: "('r \<Rightarrow> string) \<Rightarrow> 'r \<Rightarrow> 'r list \<Rightarrow> 'r list" where
  "upsert key row tbl = filter (\<lambda>r. key r \<noteq> key row) tbl @ [row]"

text \<open>\<open>LIMIT n\<close>: a negative limit is no limit.\<close>

definition sql_limit :: "int \<Rightarrow> 'r list \<Rightarrow> 'r list" where
  "sql_limit n rows = (if n < 0 then rows else take (nat n) rows)"

text \<open>
  A stable sort by a comparator, as \<open>Array.prototype.sort(cmp)\<close> is for a consistent
  comparator: \<open>x\<close> goes before the first element it does not compare greater than.
  \<open>ORDER BY\<close> is modelled by the same sort (SQL leaves the order of ties open; the
  model keeps rowid order among them).
\<close>

fun insort_cmp :: "('a \<Rightarrow> 'a \<Rightarrow> int) \<Rightarrow> 'a \<Rightarrow> 'a list \<Rightarrow> 'a list" where
  "insort_cmp cmp x [] = [x]"
| "insort_cmp cmp x (y # ys) =
     (if cmp x y \<le> 0 then x # y # ys else y # insort_cmp cmp x ys)"

definition sort_cmp :: "('a \<Rightarrow> 'a \<Rightarrow> int) \<Rightarrow> 'a list \<Rightarrow> 'a list" where
  "sort_cmp cmp xs = foldr (insort_cmp cmp) xs []"

text \<open>Running a constructor over the rows of a query, left to right.\<close>

fun mapW :: "('a \<Rightarrow> world \<Rightarrow> 'b \<times> world) \<Rightarrow> 'a list \<Rightarrow> world \<Rightarrow> 'b list \<times> world" where
  "mapW f [] w = ([], w)"
| "mapW f (x # xs) w =
     (let (y, w1) = f x w; (ys, w2) = mapW f xs w1 in (y # ys, w2))"

section \<open>Conversation\<close>

text \<open>\<open>addMessage\<close>: the message is pushed with the time of the call and the
  line \<open>role: content\<close> is appended to the raw text; a missing argument is rendered
  by the template literal as the text \<open>undefined\<close>.\<close>

definition Conversation_addMessage :: "jsval \<Rightarrow> jsval \<Rightarrow> int \<Rightarrow> conversation \<Rightarrow> conversation" where
  "Conversation_addMessage role content now c =
     c\<lparr>c_messages := c_messages c @ [(role, content, now)],
       c_rawText := c_rawText c @ toStr role @ '': '' @ toStr content @ [CHR 0x0A]\<rparr>"

definition Conversation_end :: "int \<Rightarrow> conversation \<Rightarrow> conversation" where
  "Conversation_end now c = c\<lparr>c_endTime := Some now\<rparr>"

definition getFullText :: "conversation \<Rightarrow> string" where
  "getFullText c = c_rawText c"

text \<open>\<open>getDuration\<close>: null while the conversation is open, else the minutes between
  start and end.\<close>

definition getDuration :: "conversation \<Rightarrow> rat option" where
  "getDuration c =
     (case c_endTime c of
        None \<Rightarrow> None
      | Some e \<Rightarrow> Some (of_int (e - c_startTime c) / (1000 * 60)))"

section \<open>MemoryProcessor: summary, importance and tags\<close>

text \<open>The test \<open>if (duration)\<close> of the summary and of the importance holds for a
  duration that is neither null nor 0: both are falsy.\<close>

definition generateSummary :: "runtime \<Rightarrow> conversation \<Rightarrow> int option \<Rightarrow> string" where
  "generateSummary rt conversation maxLengthOpt =
     (let maxLength = (case maxLengthOpt of None \<Rightarrow> 500 | Some n \<Rightarrow> n);
          fullText = getFullText conversation
      in if length fullText > 0 then
           (let textForSummary = substring0 fullText (min maxLength (int (length fullText)))
            in if length textForSummary < length fullText
               then substring0 textForSummary (lastIndexOf textForSummary CHR '' '') @ ''...''
               else textForSummary)
         else
           (let participantsStr = join '', '' (c_participants conversation);
                duration = getDuration conversation;
                summary = ''Conversation with '' @ participantsStr
            in case duration of
                 None \<Rightarrow> summary
               | Some d \<Rightarrow>
                   if d \<noteq> 0 then summary @ '' lasting '' @ rt_toFixed1 rt d @ '' minutes''
                   else summary))"

definition calculateImportance :: "conversation \<Rightarrow> int" where
  "calculateImportance conversation =
     (let importance = 5;
          duration = getDuration conversation;
          importance = (case duration of
                          None \<Rightarrow> importance
                        | Some d \<Rightarrow>
                            if d \<noteq> 0 then importance + min 2 \<lfloor>d / 10\<rfloor>
                            else importance);
          importance = (if length (c_participants conversation) > 2
                        then importance + 1 else importance);
          textLength = length (c_rawText conversation);
          importance = (if textLength > 1000 then importance + 1 else importance)
      in min (max importance 1) 10)"

definition commonKeywords :: "string list" where
  "commonKeywords =
     [''help'', ''question'', ''problem'', ''solution'', ''error'', ''fix'', ''learn'',
      ''code'', ''program'', ''software'', ''data'', ''api'', ''file'', ''system'',
      ''request'', ''information'', ''explain'', ''understand'', ''create'', ''build'']"

definition generateTags :: "runtime \<Rightarrow> conversation \<Rightarrow> string \<Rightarrow> string list" where
  "generateTags rt conversation summary =
     (let tags = c_participants conversation;
          dateStr = rt_isoDate rt (c_startTime conversation);
          tags = tags @ [dateStr];
          summaryLower = toLowerCase summary;
          tags = tags @ filter (\<lambda>keyword. str_includes summaryLower keyword) commonKeywords
      in uniq [] tags)"

section \<open>Memory\<close>

text \<open>The constructor: a missing id is generated, the importance goes through
  \<open>Math.min(Math.max(importance, 1), 10)\<close>, a missing timestamp is the time of the call.
  The importance argument is any value, given as the number it converts to; for an
  argument that is left out (None) the default 5 of the parameter applies. Every call in
  the repository passes the other five arguments, so their defaults are not modelled.\<close>

definition Memory_new ::
  "runtime \<Rightarrow> string option \<Rightarrow> string option \<Rightarrow> string \<Rightarrow> jsnum option \<Rightarrow> int option
     \<Rightarrow> string list
     \<Rightarrow> world \<Rightarrow> memory \<times> world" where
  "Memory_new rt memoryId conversationId summary importance timestamp tags w =
     (let importance = (case importance of None \<Rightarrow> Num 5 | Some n \<Rightarrow> n);
          (mid, w1) = idOrFresh rt memoryId w;
          (ts, w2) = dateOrNow rt timestamp w1
      in (\<lparr>m_memoryId = mid, m_conversationId = conversationId, m_summary = summary,
           m_importance = Math_min (Math_max importance (Num 1)) (Num 10),
           m_timestamp = ts, m_tags = tags\<rparr>, w2))"

text \<open>\<open>save\<close>: an importance of NaN is bound as NULL, which the column refuses. Otherwise
  the row is written when its conversation id is null or the id of a stored conversation,
  and else the insert is rejected and nothing is written.\<close>

definition Memory_save :: "memory \<Rightarrow> world \<Rightarrow> (error + memory) \<times> world" where
  "Memory_save m w =
     (if m_importance m = NaN then (Inl not_null_failed, w)
      else if (case m_conversationId m of
                 None \<Rightarrow> True
               | Some cid \<Rightarrow> cid \<in> set (map c_conversationId (conversations_tbl w)))
      then (Inr m, w\<lparr>memories_tbl := upsert m_memoryId m (memories_tbl w)\<rparr>)
      else (Inl foreign_key_failed, w))"

definition Memory_of_row :: "runtime \<Rightarrow> memory \<Rightarrow> world \<Rightarrow> memory \<times> world" where
  "Memory_of_row rt row w =
     Memory_new rt (Some (m_memoryId row)) (m_conversationId row) (m_summary row)
       (Some (m_importance row)) (Some (m_timestamp row)) (m_tags row) w"

definition by_timestamp_desc :: "memory \<Rightarrow> memory \<Rightarrow> int" where
  "by_timestamp_desc a b = m_timestamp b - m_timestamp a"

text \<open>The sign that \<open>sort\<close> reads off the number a comparator returns; NaN counts
  as 0.\<close>

fun sort_sign :: "jsnum \<Rightarrow> int" where
  "sort_sign (Num r) = (if r < 0 then - 1 else if 0 < r then 1 else 0)"
| "sort_sign NaN = 0"
| "sort_sign PosInfinity = 1"
| "sort_sign NegInfinity = - 1"

text \<open>The comparator of \<open>searchByTags\<close>, which is also the order of \<open>getImportant\<close>:
  importance descending, then timestamp descending.\<close>

definition by_importance_then_timestamp :: "memory \<Rightarrow> memory \<Rightarrow> int" where
  "by_importance_then_timestamp a b =
     (if js_strict_neq (m_importance a) (m_importance b)
      then sort_sign (js_sub (m_importance b) (m_importance a))
      else m_timestamp b - m_timestamp a)"

definition Memory_getRecent :: "runtime \<Rightarrow> int \<Rightarrow> world \<Rightarrow> memory list \<times> world" where
  "Memory_getRecent rt limit w =
     (let rows = sql_limit limit (sort_cmp by_timestamp_desc (memories_tbl w))
      in mapW (Memory_of_row rt) rows w)"

definition Memory_getImportant :: "runtime \<Rightarrow> int \<Rightarrow> int \<Rightarrow> world \<Rightarrow> memory list \<times> world" where
  "Memory_getImportant rt threshold limit w =
     (let rows = sql_limit limit
                   (sort_cmp by_importance_then_timestamp
                      (filter (\<lambda>row. js_ge (m_importance row) (Num (of_int threshold)))
                              (memories_tbl w)))
      in mapW (Memory_of_row rt) rows w)"

subsection \<open>The tags column and the LIKE query\<close>

definition hexDigit :: "nat \<Rightarrow> char" where
  "hexDigit n = (if n < 10 then char_of (48 + n) else char_of (87 + n))"

text \<open>\<open>JSON.stringify\<close> of a string: quotes, with the quote, the backslash and the
  control characters escaped.\<close>

definition json_escape :: "char \<Rightarrow> string" where
  "json_escape c =
     (let n = (of_char c :: nat)
      in if c = CHR 0x22 then [CHR 0x5C, CHR 0x22]
         else if c = CHR 0x5C then [CHR 0x5C, CHR 0x5C]
         else if n = 8 then [CHR 0x5C, CHR ''b'']
         else if n = 12 then [CHR 0x5C, CHR ''f'']
         else if n = 10 then [CHR 0x5C, CHR ''n'']
         else if n = 13 then [CHR 0x5C, CHR ''r'']
         else if n = 9 then [CHR 0x5C, CHR ''t'']
         else if n < 32 then [CHR 0x5C, CHR ''u'', CHR ''0'', CHR ''0'',
                               hexDigit (n div 16), hexDigit (n mod 16)]
         else [c])"

definition json_string :: "string \<Rightarrow> string" where
  "json_string s = [CHR 0x22] @ concat (map json_escape s) @ [CHR 0x22]"

text \<open>\<open>JSON.stringify(tags)\<close> of an array of strings, the text of the tags column.\<close>

definition json_tags :: "string list \<Rightarrow> string" where
  "json_tags tags = ''['' @ join '','' (map json_string tags) @ '']''"

text \<open>
  SQLite's \<open>text LIKE pattern\<close> (no ESCAPE clause): \<open>%\<close> matches any run of
  characters, \<open>_\<close> any one character, and any other character matches itself
  without regard to the case of ASCII letters. First argument: the pattern.
\<close>

fun like :: "string \<Rightarrow> string \<Rightarrow> bool" where
  "like [] s = (s = [])"
| "like (p # ps) [] = (p = CHR ''%'' \<and> like ps [])"
| "like (p # ps) (c # cs) =
     (if p = CHR ''%'' then like ps (c # cs) \<or> like (p # ps) cs
      else (p = CHR ''_'' \<or> lowerChar p = lowerChar c) \<and> like ps cs)"

text \<open>The loop that removes duplicates: a row is kept unless its id was seen before.\<close>

fun uniqueById :: "string list \<Rightarrow> memory list \<Rightarrow> memory list" where
  "uniqueById uniqueIds [] = []"
| "uniqueById uniqueIds (row # rows) =
     (if m_memoryId row \<in> set uniqueIds then uniqueById uniqueIds rows
      else row # uniqueById (uniqueIds @ [m_memoryId row]) rows)"

text \<open>\<open>xs.slice(0, e)\<close>: a negative end counts from the end of the array.\<close>

definition slice0 :: "'a list \<Rightarrow> int \<Rightarrow> 'a list" where
  "slice0 xs e = (if e < 0 then take (nat (int (length xs) + e)) xs else take (nat e) xs)"

definition searchByTags :: "runtime \<Rightarrow> string list \<Rightarrow> int \<Rightarrow> world \<Rightarrow> memory list \<times> world" where
  "searchByTags rt tags limit w =
     (let tagMatches =
            concat (map (\<lambda>tag. filter (\<lambda>row. like (''%'' @ tag @ ''%'') (json_tags (m_tags row)))
                                    (memories_tbl w)) tags);
          uniqueMemories = uniqueById [] tagMatches;
          sortedMemories = sort_cmp by_importance_then_timestamp uniqueMemories;
          limitedMemories = slice0 sortedMemories limit
      in mapW (Memory_of_row rt) limitedMemories w)"

text \<open>\<open>updateImportance\<close> of any value, given as the number it converts to (None:
  undefined, which converts to NaN).\<close>

definition updateImportance :: "jsnum option \<Rightarrow> memory \<Rightarrow> memory" where
  "updateImportance newImportance m =
     m\<lparr>m_importance := Math_min (Math_max (toNumber newImportance) (Num 1)) (Num 10)\<rparr>"

text \<open>\<open>addTags\<close> with an array argument.\<close>

fun addTags :: "string list \<Rightarrow> memory \<Rightarrow> memory" where
  "addTags [] m = m"
| "addTags (tag # newTags) m =
     addTags newTags (if tag \<in> set (m_tags m) then m else m\<lparr>m_tags := m_tags m @ [tag]\<rparr>)"

section \<open>MemoryProcessor: processing a conversation\<close>

text \<open>\<open>processConversation\<close>: a null conversation is refused; otherwise the memory is
  built from the three heuristics, stamped with the time of the call, and saved; the
  result is that of \<open>save\<close>.\<close>

definition processConversation ::
  "runtime \<Rightarrow> conversation option \<Rightarrow> int option \<Rightarrow> world \<Rightarrow> (error + memory) \<times> world" where
  "processConversation rt conversation maxLength w =
     (case conversation of
        None \<Rightarrow> (Inl (Error ''Conversation cannot be null''), w)
      | Some c \<Rightarrow>
          (let summary = generateSummary rt c maxLength;
               importance = calculateImportance c;
               tags = generateTags rt c summary;
               (now, w1) = newDate rt w;
               (memory, w2) = Memory_new rt None (Some (c_conversationId c)) summary
                                (Some (Num (of_int importance))) (Some now) tags w1
           in Memory_save memory w2))"

section \<open>Persona\<close>

text \<open>The constructor stamps \<open>lastUpdated\<close> with the time of the call, whatever the row
  held.\<close>

definition Persona_new ::
  "runtime \<Rightarrow> string option \<Rightarrow> (string \<rightharpoonup> jsnum) \<Rightarrow> (string \<rightharpoonup> jsnum) \<Rightarrow> (string \<rightharpoonup> string)
     \<Rightarrow> string \<Rightarrow> world \<Rightarrow> persona \<times> world" where
  "Persona_new rt personaId traits vals preferences biography w =
     (let (pid, w1) = idOrFresh rt personaId w;
          (now, w2) = newDate rt w1
      in (\<lparr>p_personaId = pid, p_traits = traits, p_values = vals,
           p_preferences = preferences, p_biography = biography, p_lastUpdated = now\<rparr>, w2))"

definition Persona_save :: "persona \<Rightarrow> world \<Rightarrow> world" where
  "Persona_save p w = w\<lparr>persona_tbl := upsert p_personaId p (persona_tbl w)\<rparr>"

definition by_lastUpdated_desc :: "persona \<Rightarrow> persona \<Rightarrow> int" where
  "by_lastUpdated_desc a b = p_lastUpdated b - p_lastUpdated a"

definition loadMostRecent :: "runtime \<Rightarrow> world \<Rightarrow> persona option \<times> world" where
  "loadMostRecent rt w =
     (case sql_limit 1 (sort_cmp by_lastUpdated_desc (persona_tbl w)) of
        [] \<Rightarrow> (None, w)
      | row # _ \<Rightarrow>
          (let (p, w1) = Persona_new rt (Some (p_personaId row)) (p_traits row) (p_values row)
                           (p_preferences row) (p_biography row) w
           in (Some p, w1)))"

definition default_biography :: string where
  "default_biography =
     ''I am Claude 3.7, an AI assistant designed to be helpful, harmless, and honest. '' @
     ''I value clarity, accuracy, and providing useful information tailored to users'' @
     [CHR 0x27] @ '' needs.''"

definition createDefault :: "runtime \<Rightarrow> world \<Rightarrow> persona \<times> world" where
  "createDefault rt w =
     (let (u, w1) = uuidv4 rt w;
          (defaultPersona, w2) =
             Persona_new rt (Some u)
               [''openness'' \<mapsto> Num (7 / 10), ''conscientiousness'' \<mapsto> Num (8 / 10),
                ''extraversion'' \<mapsto> Num (6 / 10), ''agreeableness'' \<mapsto> Num (75 / 100),
                ''neuroticism'' \<mapsto> Num (4 / 10)]
               [''honesty'' \<mapsto> Num (9 / 10), ''helpfulness'' \<mapsto> Num (85 / 100),
                ''knowledge'' \<mapsto> Num (8 / 10), ''efficiency'' \<mapsto> Num (75 / 100)]
               [''communicationStyle'' \<mapsto> ''clear and concise'',
                ''responseFormat'' \<mapsto> ''structured'',
                ''interactionPreference'' \<mapsto> ''friendly professional'']
               default_biography w1
      in (defaultPersona, Persona_save defaultPersona w2))"

definition ensureExists :: "runtime \<Rightarrow> world \<Rightarrow> persona \<times> world" where
  "ensureExists rt w =
     (case loadMostRecent rt w of
        (None, w1) \<Rightarrow> createDefault rt w1
      | (Some p, w1) \<Rightarrow> (p, w1))"

text \<open>The four update methods: \<open>{...old, ...new}\<close> is the old map overridden by the new
  one; each stamps \<open>lastUpdated\<close>.\<close>

definition updateTraits :: "runtime \<Rightarrow> (string \<rightharpoonup> jsnum) \<Rightarrow> persona \<Rightarrow> world \<Rightarrow> persona \<times> world" where
  "updateTraits rt newTraits p w =
     (let (now, w1) = newDate rt w
      in (p\<lparr>p_traits := p_traits p ++ newTraits, p_lastUpdated := now\<rparr>, w1))"

definition updateValues :: "runtime \<Rightarrow> (string \<rightharpoonup> jsnum) \<Rightarrow> persona \<Rightarrow> world \<Rightarrow> persona \<times> world" where
  "updateValues rt newValues p w =
     (let (now, w1) = newDate rt w
      in (p\<lparr>p_values := p_values p ++ newValues, p_lastUpdated := now\<rparr>, w1))"

definition updatePreferences ::
  "runtime \<Rightarrow> (string \<rightharpoonup> string) \<Rightarrow> persona \<Rightarrow> world \<Rightarrow> persona \<times> world" where
  "updatePreferences rt newPreferences p w =
     (let (now, w1) = newDate rt w
      in (p\<lparr>p_preferences := p_preferences p ++ newPreferences, p_lastUpdated := now\<rparr>, w1))"

definition updateBiography :: "runtime \<Rightarrow> string \<Rightarrow> persona \<Rightarrow> world \<Rightarrow> persona \<times> world" where
  "updateBiography rt newBiography p w =
     (let (now, w1) = newDate rt w
      in (p\<lparr>p_biography := newBiography, p_lastUpdated := now\<rparr>, w1))"

section \<open>DreamstateUpdate\<close>

definition DreamstateUpdate_new ::
  "runtime \<Rightarrow> string option \<Rightarrow> string \<Rightarrow> string \<Rightarrow> string \<Rightarrow> pstate \<Rightarrow> pstate \<Rightarrow> int option
     \<Rightarrow> world \<Rightarrow> dreamstate_update \<times> world" where
  "DreamstateUpdate_new rt updateId personaId description justification previousState newState
     timestamp w =
     (let (uid, w1) = idOrFresh rt updateId w;
          (ts, w2) = dateOrNow rt timestamp w1
      in (\<lparr>u_updateId = uid, u_personaId = personaId, u_description = description,
           u_justification = justification, u_previousState = previousState,
           u_newState = newState, u_timestamp = ts\<rparr>, w2))"

text \<open>\<open>save\<close>: the row is written when its persona id is the id of a stored persona.\<close>

definition DreamstateUpdate_save ::
  "dreamstate_update \<Rightarrow> world \<Rightarrow> (error + dreamstate_update) \<times> world" where
  "DreamstateUpdate_save u w =
     (if u_personaId u \<in> set (map p_personaId (persona_tbl w))
      then (Inr u, w\<lparr>dreamstate_updates_tbl := upsert u_updateId u (dreamstate_updates_tbl w)\<rparr>)
      else (Inl foreign_key_failed, w))"

definition DreamstateUpdate_of_row :: "runtime \<Rightarrow> dreamstate_update \<Rightarrow> world \<Rightarrow> dreamstate_update \<times> world" where
  "DreamstateUpdate_of_row rt row w =
     DreamstateUpdate_new rt (Some (u_updateId row)) (u_personaId row) (u_description row)
       (u_justification row) (u_previousState row) (u_newState row) (Some (u_timestamp row)) w"

definition by_update_timestamp_desc :: "dreamstate_update \<Rightarrow> dreamstate_update \<Rightarrow> int" where
  "by_update_timestamp_desc a b = u_timestamp b - u_timestamp a"

definition getByPersona :: "runtime \<Rightarrow> string \<Rightarrow> int \<Rightarrow> world \<Rightarrow> dreamstate_update list \<times> world" where
  "getByPersona rt personaId limit w =
     (let rows = sql_limit limit
                   (sort_cmp by_update_timestamp_desc
                      (filter (\<lambda>row. u_personaId row = personaId) (dreamstate_updates_tbl w)))
      in mapW (DreamstateUpdate_of_row rt) rows w)"

text \<open>\<open>getDiff\<close>: for each key of the new state, the pair (previous, new) when the two
  differ by \<open>!==\<close>; a key missing before has previous value undefined (None). For
  numbers, NaN differs from itself.\<close>

definition num_differs :: "jsnum option \<Rightarrow> jsnum \<Rightarrow> bool" where
  "num_differs previous new = (previous \<noteq> Some new \<or> new = NaN)"

definition diff_nums ::
  "(string \<rightharpoonup> jsnum) \<Rightarrow> (string \<rightharpoonup> jsnum) \<Rightarrow> (string \<rightharpoonup> jsnum option \<times> jsnum)" where
  "diff_nums previous new =
     (\<lambda>k. case new k of
             None \<Rightarrow> None
           | Some v \<Rightarrow> if num_differs (previous k) v then Some (previous k, v) else None)"

definition diff_strings ::
  "(string \<rightharpoonup> string) \<Rightarrow> (string \<rightharpoonup> string) \<Rightarrow> (string \<rightharpoonup> string option \<times> string)" where
  "diff_strings previous new =
     (\<lambda>k. case new k of
             None \<Rightarrow> None
           | Some v \<Rightarrow> if previous k \<noteq> Some v then Some (previous k, v) else None)"

record state_diff =
  d_traits :: "string \<rightharpoonup> jsnum option \<times> jsnum"
  d_values :: "string \<rightharpoonup> jsnum option \<times> jsnum"
  d_preferences :: "string \<rightharpoonup> string option \<times> string"
  d_biography :: "(string \<times> string) option"

definition getDiff :: "dreamstate_update \<Rightarrow> state_diff" where
  "getDiff u =
     \<lparr>d_traits = diff_nums (st_traits (u_previousState u)) (st_traits (u_newState u)),
      d_values = diff_nums (st_values (u_previousState u)) (st_values (u_newState u)),
      d_preferences =
        diff_strings (st_preferences (u_previousState u)) (st_preferences (u_newState u)),
      d_biography =
        (if st_biography (u_previousState u) \<noteq> st_biography (u_newState u)
         then Some (st_biography (u_previousState u), st_biography (u_newState u))
         else None)\<rparr>"

section \<open>PersonaEvolver\<close>

record changes =
  ch_description :: string
  ch_justification :: string
  ch_traits :: "string \<rightharpoonup> jsnum"
  ch_values :: "string \<rightharpoonup> jsnum"
  ch_preferences :: "string \<rightharpoonup> string"
  ch_biography :: "string option"

text \<open>A number in a template literal: the decimal digits of a length or count.\<close>

fun showNat :: "nat \<Rightarrow> string" where
  "showNat n = (if n < 10 then [char_of (48 + n)] else showNat (n div 10) @ [char_of (48 + n mod 10)])"

declare showNat.simps [simp del]

text \<open>
  \<open>tagCounts\<close> is an object used as a dictionary. It is kept as the list of its entries
  in creation order; \<open>Object.entries\<close> lists the keys that are array indices first, in
  ascending numeric order, then the other keys in creation order.
\<close>

fun countTag :: "string \<Rightarrow> (string \<times> nat) list \<Rightarrow> (string \<times> nat) list" where
  "countTag tag [] = [(tag, 1)]"
| "countTag tag ((k, n) # kvs) =
     (if k = tag then (k, n + 1) # kvs else (k, n) # countTag tag kvs)"

definition isDigit :: "char \<Rightarrow> bool" where
  "isDigit c = (let n = (of_char c :: nat) in 48 \<le> n \<and> n \<le> 57)"

definition natOfDigits :: "string \<Rightarrow> nat" where
  "natOfDigits s = foldl (\<lambda>a c. 10 * a + (of_char c - 48)) 0 s"

definition isArrayIndex :: "string \<Rightarrow> bool" where
  "isArrayIndex s =
     (s \<noteq> [] \<and> list_all isDigit s \<and> (s = ''0'' \<or> hd s \<noteq> CHR ''0'')
      \<and> natOfDigits s < 2 ^ 32 - 1)"

definition objectEntries :: "(string \<times> nat) list \<Rightarrow> (string \<times> nat) list" where
  "objectEntries kvs =
     sort_key (\<lambda>(k, n). natOfDigits k) (filter (\<lambda>(k, n). isArrayIndex k) kvs)
     @ filter (\<lambda>(k, n). \<not> isArrayIndex k) kvs"

definition by_count_desc :: "string \<times> nat \<Rightarrow> string \<times> nat \<Rightarrow> int" where
  "by_count_desc a b = int (snd b) - int (snd a)"

text \<open>The comparison \<open>axis < bound\<close> on a possibly missing axis: false for undefined
  and for NaN.\<close>

definition axis_less :: "jsnum option \<Rightarrow> rat \<Rightarrow> bool" where
  "axis_less a bound = js_lt (toNumber a) (Num bound)"

text \<open>\<open>Math.min(cap, axis + delta)\<close>: NaN when the axis is missing or NaN.\<close>

definition axis_raise :: "rat \<Rightarrow> jsnum option \<Rightarrow> rat \<Rightarrow> jsnum" where
  "axis_raise cap a delta = Math_min (Num cap) (js_add (toNumber a) (Num delta))"

definition identifyPersonaChanges :: "persona \<Rightarrow> memory list \<Rightarrow> changes" where
  "identifyPersonaChanges persona memories =
     (if length memories = 0 then
        \<lparr>ch_description = ''No changes made due to lack of new experiences'',
         ch_justification = ''No recent memories to process'',
         ch_traits = Map.empty, ch_values = Map.empty, ch_preferences = Map.empty,
         ch_biography = None\<rparr>
      else
        (let highImportanceMemories = filter (\<lambda>memory. js_ge (m_importance memory) (Num 8)) memories;
             significantExperience = (length highImportanceMemories > 0);
             tagCounts = foldl (\<lambda>counts memory. foldl (\<lambda>cs tag. countTag tag cs) counts
                                                   (m_tags memory)) [] memories;
             sortedTags = map fst (take 3 (sort_cmp by_count_desc (objectEntries tagCounts)));
             justification = ''Based on '' @ showNat (length memories) @ '' recent memories'';
             justification =
               (if length highImportanceMemories > 0
                then justification @ '', including '' @ showNat (length highImportanceMemories)
                       @ '' high-importance experiences''
                else justification);
             traits = Map.empty;
             traits =
               (if significantExperience
                   \<and> axis_less (p_traits persona ''conscientiousness'') (9 / 10)
                then traits(''conscientiousness'' \<mapsto>
                       axis_raise 1 (p_traits persona ''conscientiousness'') (5 / 100))
                else traits);
             traits =
               (if (''error'' \<in> set sortedTags \<or> ''problem'' \<in> set sortedTags)
                   \<and> axis_less (p_traits persona ''neuroticism'') (8 / 10)
                then traits(''neuroticism'' \<mapsto>
                       axis_raise (8 / 10) (p_traits persona ''neuroticism'') (3 / 100))
                else traits);
             helps = ((''solution'' \<in> set sortedTags \<or> ''help'' \<in> set sortedTags)
                      \<and> axis_less (p_traits persona ''agreeableness'') (95 / 100));
             traits =
               (if helps
                then traits(''agreeableness'' \<mapsto>
                       axis_raise (95 / 100) (p_traits persona ''agreeableness'') (2 / 100))
                else traits);
             vals =
               (if helps
                then [''helpfulness'' \<mapsto> axis_raise 1 (p_values persona ''helpfulness'') (1 / 100)]
                else Map.empty);
             biography =
               (case highImportanceMemories of
                  [] \<Rightarrow> None
                | mostImportantMemory # _ \<Rightarrow>
                    Some (p_biography persona @ '' Recently, I ''
                            @ toLowerCase (m_summary mostImportantMemory)))
         in \<lparr>ch_description = ''Persona evolved based on recent experiences'',
             ch_justification = justification,
             ch_traits = traits, ch_values = vals, ch_preferences = Map.empty,
             ch_biography = biography\<rparr>))"

definition snapshot :: "persona \<Rightarrow> pstate" where
  "snapshot persona =
     \<lparr>st_traits = p_traits persona, st_values = p_values persona,
      st_preferences = p_preferences persona, st_biography = p_biography persona\<rparr>"

text \<open>\<open>s || fallback\<close> on strings: the empty string is falsy.\<close>

definition orElse :: "string \<Rightarrow> string \<Rightarrow> string" where
  "orElse s fallback = (if s \<noteq> [] then s else fallback)"

text \<open>
  \<open>evolveDreamstate\<close>. The three maps of \<open>changes\<close> are objects, hence truthy, so the
  three map updates always run (each stamps \<open>lastUpdated\<close>); the biography is updated
  when it is a non-empty string. The persona that is returned is the caller's object
  after the mutation.
\<close>

definition evolveDreamstate ::
  "runtime \<Rightarrow> persona option \<Rightarrow> memory list \<Rightarrow> world
     \<Rightarrow> (error + dreamstate_update \<times> persona) \<times> world" where
  "evolveDreamstate rt personaOpt recentMemories w =
     (case personaOpt of
        None \<Rightarrow> (Inl (Error ''Persona cannot be null''), w)
      | Some persona \<Rightarrow>
          (let previousState = snapshot persona;
               changes = identifyPersonaChanges persona recentMemories;
               (persona, w) = updateTraits rt (ch_traits changes) persona w;
               (persona, w) = updateValues rt (ch_values changes) persona w;
               (persona, w) = updatePreferences rt (ch_preferences changes) persona w;
               (persona, w) =
                  (case ch_biography changes of
                     None \<Rightarrow> (persona, w)
                   | Some b \<Rightarrow> if b \<noteq> [] then updateBiography rt b persona w else (persona, w));
               w = Persona_save persona w;
               newState = snapshot persona;
               (update, w) =
                  DreamstateUpdate_new rt None (p_personaId persona)
                    (orElse (ch_description changes) ''Persona evolved based on recent experiences'')
                    (orElse (ch_justification changes)
                       ''Automatic evolution from dreamstate processing'')
                    previousState newState None w
           in case DreamstateUpdate_save update w of
                (Inl e, w) \<Rightarrow> (Inl e, w)
              | (Inr saved, w) \<Rightarrow> (Inr (saved, persona), w)))"

section \<open>AwakeningService\<close>

text \<open>The options object of \<open>awaken\<close>: a key that is absent is None.\<close>

record awaken_options =
  recentMemoriesLimit :: "int option"
  importantMemoriesThreshold :: "int option"
  importantMemoriesLimit :: "int option"
  recentUpdatesLimit :: "int option"

definition no_options :: awaken_options where
  "no_options =
     \<lparr>recentMemoriesLimit = None, importantMemoriesThreshold = None,
      importantMemoriesLimit = None, recentUpdatesLimit = None\<rparr>"

text \<open>\<open>{...a, ...b}\<close>: the keys of \<open>b\<close> override those of \<open>a\<close>.\<close>

definition orOpt :: "'a option \<Rightarrow> 'a option \<Rightarrow> 'a option" where
  "orOpt b a = (case b of None \<Rightarrow> a | Some x \<Rightarrow> Some x)"

definition spread :: "awaken_options \<Rightarrow> awaken_options \<Rightarrow> awaken_options" where
  "spread a b =
     \<lparr>recentMemoriesLimit = orOpt (recentMemoriesLimit b) (recentMemoriesLimit a),
      importantMemoriesThreshold =
        orOpt (importantMemoriesThreshold b) (importantMemoriesThreshold a),
      importantMemoriesLimit = orOpt (importantMemoriesLimit b) (importantMemoriesLimit a),
      recentUpdatesLimit = orOpt (recentUpdatesLimit b) (recentUpdatesLimit a)\<rparr>"

definition withDefault :: "'a option \<Rightarrow> 'a \<Rightarrow> 'a" where
  "withDefault x d = (case x of None \<Rightarrow> d | Some v \<Rightarrow> v)"

record persona_view =
  pv_id :: string
  pv_traits :: "string \<rightharpoonup> jsnum"
  pv_values :: "string \<rightharpoonup> jsnum"
  pv_preferences :: "string \<rightharpoonup> string"
  pv_biography :: string

record memory_view =
  mv_id :: string
  mv_summary :: string
  mv_importance :: jsnum
  mv_when :: int
  mv_tags :: "string list"

record update_view =
  uv_when :: int
  uv_description :: string
  uv_justification :: string
  uv_changes :: state_diff

record awakening_context =
  ac_persona :: persona_view
  ac_recentMemories :: "memory_view list"
  ac_importantMemories :: "memory_view list"
  ac_recentUpdates :: "update_view list"
  ac_awakeningTime :: int

definition view_memory :: "memory \<Rightarrow> memory_view" where
  "view_memory m =
     \<lparr>mv_id = m_memoryId m, mv_summary = m_summary m, mv_importance = m_importance m,
      mv_when = m_timestamp m, mv_tags = m_tags m\<rparr>"

definition view_update :: "dreamstate_update \<Rightarrow> update_view" where
  "view_update u =
     \<lparr>uv_when = u_timestamp u, uv_description = u_description u,
      uv_justification = u_justification u, uv_changes = getDiff u\<rparr>"

definition AwakeningService_awaken :: "runtime \<Rightarrow> awaken_options \<Rightarrow> world \<Rightarrow> awakening_context \<times> world" where
  "AwakeningService_awaken rt options w =
     (let (persona, w) = ensureExists rt w;
          (recentMemories, w) =
             Memory_getRecent rt (withDefault (recentMemoriesLimit options) 5) w;
          (importantMemories, w) =
             Memory_getImportant rt (withDefault (importantMemoriesThreshold options) 8)
               (withDefault (importantMemoriesLimit options) 5) w;
          (recentUpdates, w) =
             getByPersona rt (p_personaId persona) (withDefault (recentUpdatesLimit options) 3) w;
          formattedUpdates = map view_update recentUpdates;
          (now, w) = newDate rt w
      in (\<lparr>ac_persona =
             \<lparr>pv_id = p_personaId persona, pv_traits = p_traits persona,
              pv_values = p_values persona, pv_preferences = p_preferences persona,
              pv_biography = p_biography persona\<rparr>,
           ac_recentMemories = map view_memory recentMemories,
           ac_importantMemories = map view_memory importantMemories,
           ac_recentUpdates = formattedUpdates,
           ac_awakeningTime = now\<rparr>, w))"

text \<open>\<open>searchRelevantMemories\<close>: the query text is not used; with tags the search is by
  tags, without tags the most recent memories are returned.\<close>

definition searchRelevantMemories ::
  "runtime \<Rightarrow> string \<Rightarrow> string list \<Rightarrow> int option \<Rightarrow> world \<Rightarrow> memory list \<times> world" where
  "searchRelevantMemories rt query tags limitOpt w =
     (let limit = withDefault limitOpt 5
      in if length tags > 0 then searchByTags rt tags limit w
         else Memory_getRecent rt limit w)"

section \<open>LTMSQL, the lifecycle controller\<close>

record ltmsql =
  l_options :: awaken_options
  l_persona :: "persona option"
  l_currentConversation :: "conversation option"
  l_awakeningContext :: "awakening_context option"
  l_isAwake :: bool

definition LTMSQL_new :: "awaken_options \<Rightarrow> ltmsql" where
  "LTMSQL_new options =
     \<lparr>l_options =
        spread \<lparr>recentMemoriesLimit = Some 5, importantMemoriesThreshold = Some 8,
                importantMemoriesLimit = Some 5, recentUpdatesLimit = None\<rparr> options,
      l_persona = None, l_currentConversation = None, l_awakeningContext = None,
      l_isAwake = False\<rparr>"

definition initialize :: "runtime \<Rightarrow> ltmsql \<Rightarrow> world \<Rightarrow> ltmsql \<times> world" where
  "initialize rt l w =
     (let (persona, w) = ensureExists rt w
      in (l\<lparr>l_persona := Some persona\<rparr>,
          console_log (''Initialized with persona ID: '' @ p_personaId persona) w))"

text \<open>The constructor and \<open>save\<close> of Conversation, which the controller is the first to
  use.\<close>

definition Conversation_new ::
  "runtime \<Rightarrow> string option \<Rightarrow> int option \<Rightarrow> int option \<Rightarrow> string list \<Rightarrow> string \<Rightarrow> string
     \<Rightarrow> world \<Rightarrow> conversation \<times> world" where
  "Conversation_new rt conversationId startTime endTime participants rawText ctx w =
     (let (cid, w1) = idOrFresh rt conversationId w;
          (st, w2) = dateOrNow rt startTime w1
      in (\<lparr>c_conversationId = cid, c_startTime = st, c_endTime = endTime,
           c_participants = participants, c_rawText = rawText, c_ctx = ctx,
           c_messages = []\<rparr>, w2))"

definition Conversation_save :: "conversation \<Rightarrow> world \<Rightarrow> world" where
  "Conversation_save c w =
     w\<lparr>conversations_tbl := upsert c_conversationId (c\<lparr>c_messages := []\<rparr>) (conversations_tbl w)\<rparr>"

text \<open>
  \<open>endConversation\<close>: without a current conversation, a warning and null. Otherwise the
  conversation is ended and saved, processed into a memory, and the reference is
  cleared. The argument is the \<open>maxLength\<close> entry of the options.
\<close>

definition endConversation ::
  "runtime \<Rightarrow> int option \<Rightarrow> ltmsql \<Rightarrow> world \<Rightarrow> (error + memory option) \<times> ltmsql \<times> world" where
  "endConversation rt maxLength l w =
     (case l_currentConversation l of
        None \<Rightarrow> (Inr None, l, console_warn ''No active conversation to end'' w)
      | Some c \<Rightarrow>
          (let (now, w) = newDate rt w;
               c = Conversation_end now c;
               l = l\<lparr>l_currentConversation := Some c\<rparr>;
               w = Conversation_save c w;
               w = console_log (''Ended conversation ID: '' @ c_conversationId c) w
           in case processConversation rt (Some c) maxLength w of
                (Inl e, w) \<Rightarrow> (Inl e, l, w)
              | (Inr memory, w) \<Rightarrow>
                  (Inr (Some memory), l\<lparr>l_currentConversation := None\<rparr>,
                   console_log (''Created memory ID: '' @ m_memoryId memory
                                  @ '' from conversation'') w)))"

definition startConversation ::
  "runtime \<Rightarrow> string list \<Rightarrow> string \<Rightarrow> ltmsql \<Rightarrow> world \<Rightarrow> (error + conversation) \<times> ltmsql \<times> world" where
  "startConversation rt participants ctx l w =
     (case (case l_currentConversation l of
              None \<Rightarrow> (Inr None, l, w)
            | Some _ \<Rightarrow>
                endConversation rt None l
                  (console_warn ''Ending existing conversation before starting a new one'' w)) of
        (Inl e, l, w) \<Rightarrow> (Inl e, l, w)
      | (Inr _, l, w) \<Rightarrow>
          (let (now, w) = newDate rt w;
               (c, w) = Conversation_new rt None (Some now) None participants [] ctx w;
               l = l\<lparr>l_currentConversation := Some c\<rparr>;
               w = Conversation_save c w;
               w = console_log (''Started conversation ID: '' @ c_conversationId c) w
           in (Inr c, l, w)))"

text \<open>
  \<open>startConversation\<close> called without \<open>await\<close>: the part of it that runs before the
  caller goes on, which is everything up to the first save. The save is issued and left
  in flight.
\<close>

definition startConversation_unawaited ::
  "runtime \<Rightarrow> string list \<Rightarrow> string \<Rightarrow> ltmsql \<Rightarrow> world \<Rightarrow> ltmsql \<times> world" where
  "startConversation_unawaited rt participants ctx l w =
     (case l_currentConversation l of
        None \<Rightarrow>
          (let (now, w) = newDate rt w;
               (c, w) = Conversation_new rt None (Some now) None participants [] ctx w;
               l = l\<lparr>l_currentConversation := Some c\<rparr>
           in (l, w\<lparr>inflight := inflight w @ [StartedSave c]\<rparr>))
      | Some c \<Rightarrow>
          (let w = console_warn ''Ending existing conversation before starting a new one'' w;
               (now, w) = newDate rt w;
               c = Conversation_end now c;
               l = l\<lparr>l_currentConversation := Some c\<rparr>
           in (l, w\<lparr>inflight := inflight w @ [EndingSave c participants ctx]\<rparr>)))"

text \<open>
  What runs when a pending insert has been carried out. The code after an \<open>await\<close>
  reads \<open>this.currentConversation\<close> again; when that is null by then, reading its
  \<open>conversationId\<close> throws.
\<close>

definition null_conversation :: error where
  "null_conversation =
     Error ''TypeError: Cannot read properties of null (reading 'conversationId')''"

definition unhandled_rejection :: "error \<Rightarrow> world \<Rightarrow> world" where
  "unhandled_rejection e w = w\<lparr>unhandled := unhandled w @ [e]\<rparr>"

text \<open>The rest of \<open>startConversation\<close> after its save.\<close>

definition startConversation_rest :: "ltmsql \<Rightarrow> world \<Rightarrow> (error + conversation) \<times> ltmsql \<times> world" where
  "startConversation_rest l w =
     (case l_currentConversation l of
        None \<Rightarrow> (Inl null_conversation, l, w)
      | Some c \<Rightarrow>
          (Inr c, l, console_log (''Started conversation ID: '' @ c_conversationId c) w))"

text \<open>The rest of \<open>endConversation\<close> after its save.\<close>

definition endConversation_rest ::
  "runtime \<Rightarrow> int option \<Rightarrow> ltmsql \<Rightarrow> world \<Rightarrow> (error + memory option) \<times> ltmsql \<times> world" where
  "endConversation_rest rt maxLength l w =
     (case l_currentConversation l of
        None \<Rightarrow> (Inl null_conversation, l, w)
      | Some c \<Rightarrow>
          (let w = console_log (''Ended conversation ID: '' @ c_conversationId c) w
           in case processConversation rt (Some c) maxLength w of
                (Inl e, w) \<Rightarrow> (Inl e, l, w)
              | (Inr memory, w) \<Rightarrow>
                  (Inr (Some memory), l\<lparr>l_currentConversation := None\<rparr>,
                   console_log (''Created memory ID: '' @ m_memoryId memory
                                  @ '' from conversation'') w)))"

text \<open>
  One piece of pending work: the insert is carried out with the values it was issued
  with, and the rest of the call runs, to its end. A rejection goes to nobody.
\<close>

fun run_deferred :: "runtime \<Rightarrow> deferred \<Rightarrow> ltmsql \<Rightarrow> world \<Rightarrow> ltmsql \<times> world" where
  "run_deferred rt (StartedSave c) l w =
     (case startConversation_rest l (Conversation_save c w) of
        (Inl e, l, w) \<Rightarrow> (l, unhandled_rejection e w)
      | (Inr _, l, w) \<Rightarrow> (l, w))"
| "run_deferred rt (EndingSave c participants ctx) l w =
     (case endConversation_rest rt None l (Conversation_save c w) of
        (Inl e, l, w) \<Rightarrow> (l, unhandled_rejection e w)
      | (Inr _, l, w) \<Rightarrow>
          (let (now, w) = newDate rt w;
               (c, w) = Conversation_new rt None (Some now) None participants [] ctx w;
               l = l\<lparr>l_currentConversation := Some c\<rparr>
           in case startConversation_rest l (Conversation_save c w) of
                (Inl e, l, w) \<Rightarrow> (l, unhandled_rejection e w)
              | (Inr _, l, w) \<Rightarrow> (l, w)))"

text \<open>
  \<open>settle\<close>: everything in flight is carried out, oldest first. Pending work can be
  carried out at any moment after it was issued; the model has it carried out between
  two calls of the controller, where \<open>settle\<close> stands: before the next call when the
  caller leaves the system time for it, after the next call when the caller goes on at
  once and the statements of that call overtake the pending one (the database handle
  runs its statements in parallel, \<open>db.serialize\<close> is never called).
\<close>

definition settle :: "runtime \<Rightarrow> ltmsql \<Rightarrow> world \<Rightarrow> ltmsql \<times> world" where
  "settle rt l w =
     foldl (\<lambda>(l, w) d. run_deferred rt d l w) (l, w\<lparr>inflight := []\<rparr>) (inflight w)"

text \<open>
  \<open>awaken\<close>: when already awake, a warning and the existing context. Otherwise the
  context is loaded, the controller is marked awake and a conversation is started.
  The source does not await \<open>startConversation\<close>: \<open>awaken\<close> logs and returns with the
  save of the conversation in flight, and a rejection of \<open>startConversation\<close> does not
  reach the caller of \<open>awaken\<close>.
\<close>

definition awaken ::
  "runtime \<Rightarrow> awaken_options \<Rightarrow> ltmsql \<Rightarrow> world
     \<Rightarrow> (error + awakening_context option) \<times> ltmsql \<times> world" where
  "awaken rt options l w =
     (if l_isAwake l then
        (Inr (l_awakeningContext l), l, console_warn ''System is already awake'' w)
      else
        (let awakeningOptions = spread (l_options l) options;
             (context, w) = AwakeningService_awaken rt awakeningOptions w;
             l = l\<lparr>l_awakeningContext := Some context, l_isAwake := True\<rparr>;
             (l, w) = startConversation_unawaited rt [''user'', ''claude''] [] l w;
             w = console_log ''System awakened successfully'' w
         in (Inr (l_awakeningContext l), l, w)))"

text \<open>\<open>addMessage\<close>, the controller's operation that records a message.\<close>

definition addMessage ::
  "runtime \<Rightarrow> jsval \<Rightarrow> jsval \<Rightarrow> ltmsql \<Rightarrow> world \<Rightarrow> (error + conversation) \<times> ltmsql \<times> world" where
  "addMessage rt role content l w =
     (case l_currentConversation l of
        None \<Rightarrow> (Inl (Error ''No active conversation. Call startConversation() first''), l, w)
      | Some c \<Rightarrow>
          (let (now, w) = newDate rt w;
               c = Conversation_addMessage role content now c;
               l = l\<lparr>l_currentConversation := Some c\<rparr>;
               w = Conversation_save c w
           in (Inr c, l, w)))"

text \<open>\<open>n || 10\<close> on the limit of \<open>sleep\<close>: undefined and 0 are falsy.\<close>

definition limitOr10 :: "int option \<Rightarrow> int" where
  "limitOr10 n = (case n of None \<Rightarrow> 10 | Some k \<Rightarrow> if k \<noteq> 0 then k else 10)"

text \<open>
  \<open>sleep\<close>: when not awake, a warning and null. Otherwise an open conversation is ended
  first, the recent memories are read, the persona is evolved, and the controller is
  marked asleep. An error of a step leaves the controller as that step found it.
\<close>

definition sleep ::
  "runtime \<Rightarrow> awaken_options \<Rightarrow> ltmsql \<Rightarrow> world
     \<Rightarrow> (error + dreamstate_update option) \<times> ltmsql \<times> world" where
  "sleep rt options l w =
     (if \<not> l_isAwake l then
        (Inr None, l, console_warn ''System is already asleep'' w)
      else
        (case (case l_currentConversation l of
                 None \<Rightarrow> (Inr None, l, w)
               | Some _ \<Rightarrow> endConversation rt None l w) of
           (Inl e, l, w) \<Rightarrow> (Inl e, l, w)
         | (Inr _, l, w) \<Rightarrow>
             (let (recentMemories, w) =
                    Memory_getRecent rt (limitOr10 (recentMemoriesLimit options)) w
              in case evolveDreamstate rt (l_persona l) recentMemories w of
                   (Inl e, w) \<Rightarrow> (Inl e, l, w)
                 | (Inr (dreamstateUpdate, persona), w) \<Rightarrow>
                     (Inr (Some dreamstateUpdate),
                      l\<lparr>l_persona := Some persona, l_awakeningContext := None,
                        l_isAwake := False\<rparr>,
                      console_log (''Created dreamstate update ID: ''
                                     @ u_updateId dreamstateUpdate)
                        (console_log ''System entered sleep state'' w)))))"

definition searchMemories ::
  "runtime \<Rightarrow> string \<Rightarrow> string list \<Rightarrow> int option \<Rightarrow> world \<Rightarrow> memory list \<times> world" where
  "searchMemories rt query tags limitOpt w = searchRelevantMemories rt query tags limitOpt w"

section \<open>The MCP tool handler that records a message\<close>

text \<open>\<open>!v\<close> on an argument of the tool call: undefined, null and the empty string are
  falsy.\<close>

definition falsy :: "jsval \<Rightarrow> bool" where
  "falsy v = (v = Undefined \<or> v = Null \<or> v = Str [])"

text \<open>The \<open>catch\<close> block of the tool handler: the error is printed and becomes the
  \<open>isError\<close> response.\<close>

definition tool_error :: "string \<Rightarrow> error \<Rightarrow> ltmsql \<Rightarrow> world \<Rightarrow> (error + 'a) \<times> ltmsql \<times> world" where
  "tool_error name e l w =
     (Inl e, l, w\<lparr>console := console w @ [ErrorLine (''Error executing tool '' @ name @ '':'') e]\<rparr>)"

text \<open>
  The branch \<open>ltm_record_message\<close> of the tool handler: it checks that role and content
  are given and that the system is awake, starts a conversation when none is open, and
  calls \<open>addMessage\<close>. The success response carries the conversation id and the number
  of messages.
\<close>

definition ltm_record_message ::
  "runtime \<Rightarrow> jsval \<Rightarrow> jsval \<Rightarrow> ltmsql \<Rightarrow> world \<Rightarrow> (error + string \<times> nat) \<times> ltmsql \<times> world" where
  "ltm_record_message rt role content l w =
     (if falsy role \<or> falsy content then
        tool_error ''ltm_record_message'' (Error ''Both role and content are required'') l w
      else if \<not> l_isAwake l then
        tool_error ''ltm_record_message'' (Error ''System must be awakened first'') l w
      else
        (case (case l_currentConversation l of
                 None \<Rightarrow>
                   (case startConversation rt [''user'', ''claude''] [] l
                           (console_log ''No active conversation found, starting a new one'' w) of
                      (Inl e, l, w) \<Rightarrow> (Inl e, l, w)
                    | (Inr _, l, w) \<Rightarrow> addMessage rt role content l w)
               | Some _ \<Rightarrow> addMessage rt role content l w) of
           (Inl e, l, w) \<Rightarrow> tool_error ''ltm_record_message'' e l w
         | (Inr conversation, l, w) \<Rightarrow>
             (Inr (c_conversationId conversation, length (c_messages conversation)), l, w)))"

section \<open>Reference notions taken from the specification's wording\<close>

text \<open>The specification's \<open>clamp(x, lo, hi)\<close>.\<close>

definition spec_clamp :: "('a :: linorder) \<Rightarrow> 'a \<Rightarrow> 'a \<Rightarrow> 'a" where
  "spec_clamp x lo hi = (if x < lo then lo else if hi < x then hi else x)"

text \<open>Whitespace, as the specification's "last whitespace boundary" reads: the space
  and the control characters tab, line feed, vertical tab, form feed, carriage return.\<close>

definition isWhitespace :: "char \<Rightarrow> bool" where
  "isWhitespace c = (c \<in> {CHR '' '', CHR 0x09, CHR 0x0A, CHR 0x0B, CHR 0x0C, CHR 0x0D})"

text \<open>The index of the last whitespace character, or -1.\<close>

fun lastWhitespace :: "string \<Rightarrow> int" where
  "lastWhitespace [] = -1"
| "lastWhitespace (x # xs) =
     (let r = lastWhitespace xs
      in if 0 \<le> r then r + 1 else if isWhitespace x then 0 else -1)"

text \<open>The truncated summary in the specification's words: the transcript up to the last
  whitespace boundary before position \<open>maxLength\<close>, and the ellipsis.\<close>

definition spec_truncate :: "string \<Rightarrow> int \<Rightarrow> string" where
  "spec_truncate transcript maxLength =
     take (nat (lastWhitespace (take (nat maxLength) transcript))) transcript @ ''...''"

section \<open>Example inputs\<close>

definition example_runtime :: runtime where
  "example_runtime =
     \<lparr>rt_clock = (\<lambda>n. 1000 * int n),
      rt_uuid = (\<lambda>n. replicate (Suc n) CHR ''u''),
      rt_toFixed1 = (\<lambda>r. ''12.0''),
      rt_isoDate = (\<lambda>t. ''1970-01-01'')\<rparr>"

definition empty_world :: world where
  "empty_world =
     \<lparr>dateCalls = 0, uuidCalls = 0, persona_tbl = [], conversations_tbl = [],
      memories_tbl = [], dreamstate_updates_tbl = [], console = [], inflight = [],
      unhandled = []\<rparr>"

text \<open>A conversation between two participants, started at time 0, with two messages.\<close>

definition two_messages :: conversation where
  "two_messages =
     Conversation_addMessage (Str ''claude'') (Str ''hi'') 2000
       (Conversation_addMessage (Str ''user'') (Str ''hello'') 1000
          \<lparr>c_conversationId = ''c1'', c_startTime = 0, c_endTime = None,
           c_participants = [''user'', ''claude''], c_rawText = [], c_ctx = [],
           c_messages = []\<rparr>)"

text \<open>The same conversation, closed after 12 minutes.\<close>

definition twelve_minutes :: conversation where
  "twelve_minutes = Conversation_end (12 * 60 * 1000) two_messages"

text \<open>The same conversation, started after 10 minutes and closed 25 minutes later.\<close>

definition twenty_five_minutes :: conversation where
  "twenty_five_minutes =
     Conversation_end (35 * 60 * 1000) (two_messages\<lparr>c_startTime := 10 * 60 * 1000\<rparr>)"

text \<open>A conversation whose end time lies an hour before its start time, as the wall
  clock gives when it is set back while the conversation is open.\<close>

definition clock_set_back :: conversation where
  "clock_set_back = Conversation_end 0 (two_messages\<lparr>c_startTime := 60 * 60 * 1000\<rparr>)"

text \<open>A closed conversation of 12 minutes in which nothing was said.\<close>

definition no_messages :: conversation where
  "no_messages =
     \<lparr>c_conversationId = ''c0'', c_startTime = 0, c_endTime = Some (12 * 60 * 1000),
      c_participants = [''user'', ''claude''], c_rawText = [], c_ctx = [], c_messages = []\<rparr>"

text \<open>A controller that was constructed and initialised in an empty database.\<close>

definition initialized_system :: "ltmsql \<times> world" where
  "initialized_system = initialize example_runtime (LTMSQL_new no_options) empty_world"

text \<open>The same controller at the moment \<open>awaken\<close> has returned: it is awake, a
  conversation is open, and the save of that conversation is in flight.\<close>

definition just_awakened :: "ltmsql \<times> world" where
  "just_awakened =
     snd (awaken example_runtime no_options (fst initialized_system) (snd initialized_system))"

text \<open>The awakened controller once the save has been carried out: nothing is in
  flight.\<close>

definition awake_system :: "ltmsql \<times> world" where
  "awake_system = settle example_runtime (fst just_awakened) (snd just_awakened)"

text \<open>The awakened controller after a message of the user and an answer.\<close>

definition after_two_messages :: "ltmsql \<times> world" where
  "after_two_messages =
     (let (l, w) = awake_system;
          (l, w) = snd (addMessage example_runtime (Str ''user'') (Str ''hello'') l w)
      in snd (addMessage example_runtime (Str ''claude'') (Str ''hi'') l w))"


text \<open>The database after the awakened controller recorded the two messages and went to
  sleep: one memory, with the tags that \<open>generateTags\<close> gave it.\<close>

definition after_sleep :: world where
  "after_sleep =
     snd (snd (sleep example_runtime no_options (fst after_two_messages)
                 (snd after_two_messages)))"

section \<open>MemoryProcessor: importance\<close>

lemma floor_minutes: "\<lfloor>(of_int ms :: rat) / (1000 * 60) / 10\<rfloor> = ms div 600000"
proof -
  have "(of_int ms :: rat) / (1000 * 60) / 10 = of_int ms / of_int 600000" by simp
  then show ?thesis by (simp only: floor_divide_of_int_eq)
qed

lemma calculateImportance_unfolded:
  "calculateImportance c =
     min (max (5 + (case getDuration c of None \<Rightarrow> 0 | Some d \<Rightarrow> min 2 \<lfloor>d / 10\<rfloor>)
                 + (if length (c_participants c) > 2 then 1 else 0)
                 + (if length (c_rawText c) > 1000 then 1 else 0)) 1) 10"
  by (auto simp: calculateImportance_def Let_def getDuration_def split: option.splits)

lemma calculateImportance_range: "1 \<le> calculateImportance c \<and> calculateImportance c \<le> 10"
  by (simp add: calculateImportance_unfolded)

text \<open>The clamp of the constructor and of \<open>updateImportance\<close>, on each kind of number.\<close>

lemma clamp_Num: "Math_min (Math_max (Num r) (Num 1)) (Num 10) = Num (spec_clamp r 1 10)"
  by (simp add: Math_min_def Math_max_def spec_clamp_def)

lemma clamp_not_NaN:
  "Math_min (Math_max x (Num 1)) (Num 10) = NaN \<longleftrightarrow> x = NaN"
  by (cases x) (simp_all add: Math_min_def Math_max_def)

lemma clamp_in_range:
  "x \<noteq> NaN \<Longrightarrow> js_le (Num 1) (Math_min (Math_max x (Num 1)) (Num 10))
                 \<and> js_le (Math_min (Math_max x (Num 1)) (Num 10)) (Num 10)"
  by (cases x) (simp_all add: Math_min_def Math_max_def)

text \<open>What \<open>processConversation\<close> returns and stores for a conversation that is not null.\<close>

lemma processConversation_Some:
  "processConversation rt (Some c) ml w =
     (let m = \<lparr>m_memoryId = rt_uuid rt (uuidCalls w),
                m_conversationId = Some (c_conversationId c),
                m_summary = generateSummary rt c ml,
                m_importance = Num (of_int (calculateImportance c)),
                m_timestamp = rt_clock rt (dateCalls w),
                m_tags = generateTags rt c (generateSummary rt c ml)\<rparr>;
          w1 = w\<lparr>dateCalls := Suc (dateCalls w), uuidCalls := Suc (uuidCalls w)\<rparr>
      in if c_conversationId c \<in> set (map c_conversationId (conversations_tbl w))
         then (Inr m, w1\<lparr>memories_tbl := upsert m_memoryId m (memories_tbl w)\<rparr>)
         else (Inl foreign_key_failed, w1))"
proof -
  have "spec_clamp (of_int (calculateImportance c) :: rat) 1 10 = of_int (calculateImportance c)"
    using calculateImportance_range[of c] by (simp add: spec_clamp_def)
  then show ?thesis
    by (simp add: processConversation_def Let_def newDate_def Memory_new_def idOrFresh_def
          uuidv4_def dateOrNow_def Memory_save_def clamp_Num)
qed

text \<open>
  C4. The importance that MemoryProcessor computes for a conversation is
  clamp(5 + (duration known ? min(2, floor(durationMinutes / 10)) : 0)
          + (more than 2 participants ? 1 : 0) + (raw text longer than 1000 ? 1 : 0), 1, 10),
  where the duration is known when the conversation has an end time and durationMinutes
  is then the end time minus the start time, in minutes, which is what \<open>getDuration\<close>
  returns. It is the importance of the memory that \<open>processConversation\<close> returns (which
  it does when the conversation is a stored one), and a closed conversation that ends 12
  minutes after its start, with 2 participants and fewer than 1000 raw characters, gets
  importance 6.
\<close>

theorem calculateImportance_formula:
  "calculateImportance c =
     spec_clamp
       (5 + (case c_endTime c of None \<Rightarrow> 0
             | Some endTime \<Rightarrow>
                 min 2 \<lfloor>(of_int (endTime - c_startTime c) / (1000 * 60) :: rat) / 10\<rfloor>)
          + (if length (c_participants c) > 2 then 1 else 0)
          + (if length (c_rawText c) > 1000 then 1 else 0)) 1 10
   \<and> getDuration c =
       (case c_endTime c of None \<Rightarrow> None
        | Some endTime \<Rightarrow> Some (of_int (endTime - c_startTime c) / (1000 * 60)))
   \<and> map_sum id m_importance (fst (processConversation rt (Some c) maxLength w))
       = (if c_conversationId c \<in> set (map c_conversationId (conversations_tbl w))
          then Inr (Num (of_int (calculateImportance c))) else Inl foreign_key_failed)
   \<and> (c_endTime c = Some (c_startTime c + 12 * 60 * 1000)
        \<and> length (c_participants c) = 2 \<and> length (c_rawText c) < 1000
        \<longrightarrow> calculateImportance c = 6)"
proof (intro conjI impI)
  show "calculateImportance c =
     spec_clamp
       (5 + (case c_endTime c of None \<Rightarrow> 0
             | Some endTime \<Rightarrow>
                 min 2 \<lfloor>(of_int (endTime - c_startTime c) / (1000 * 60) :: rat) / 10\<rfloor>)
          + (if length (c_participants c) > 2 then 1 else 0)
          + (if length (c_rawText c) > 1000 then 1 else 0)) 1 10"
    unfolding calculateImportance_unfolded spec_clamp_def getDuration_def
    by (simp add: min_def max_def split: option.splits)
next
  show "getDuration c =
       (case c_endTime c of None \<Rightarrow> None
        | Some endTime \<Rightarrow> Some (of_int (endTime - c_startTime c) / (1000 * 60)))"
    by (simp add: getDuration_def)
next
  show "map_sum id m_importance (fst (processConversation rt (Some c) maxLength w))
       = (if c_conversationId c \<in> set (map c_conversationId (conversations_tbl w))
          then Inr (Num (of_int (calculateImportance c))) else Inl foreign_key_failed)"
    by (simp add: processConversation_Some Let_def)
next
  assume a: "c_endTime c = Some (c_startTime c + 12 * 60 * 1000)
      \<and> length (c_participants c) = 2 \<and> length (c_rawText c) < 1000"
  then have "getDuration c = Some 12" by (simp add: getDuration_def)
  moreover have "\<lfloor>(12::rat) / 10\<rfloor> = 1" by (simp add: floor_eq_iff)
  ultimately show "calculateImportance c = 6"
    using a by (simp add: calculateImportance_unfolded)
qed

theorem calculateImportance_formula_witness:
  "c_endTime twelve_minutes = Some (c_startTime twelve_minutes + 12 * 60 * 1000)
   \<and> length (c_participants twelve_minutes) = 2
   \<and> length (c_rawText twelve_minutes) < 1000 \<and> length (c_messages twelve_minutes) = 2
   \<and> calculateImportance twelve_minutes = 6
   \<and> getDuration twelve_minutes = Some 12
   \<and> map_sum id m_importance
         (fst (processConversation example_runtime (Some twelve_minutes) None
                 (Conversation_save twelve_minutes empty_world))) = Inr (Num 6)
   \<and> c_startTime twenty_five_minutes = 600000 \<and> c_endTime twenty_five_minutes = Some 2100000
   \<and> getDuration twenty_five_minutes = Some 25
   \<and> calculateImportance twenty_five_minutes = 7
   \<and> getDuration two_messages = None \<and> calculateImportance two_messages = 5"
proof -
  have h: "c_endTime twelve_minutes = Some (c_startTime twelve_minutes + 12 * 60 * 1000)
      \<and> length (c_participants twelve_minutes) = 2
      \<and> length (c_rawText twelve_minutes) < 1000 \<and> length (c_messages twelve_minutes) = 2"
    by (simp add: twelve_minutes_def two_messages_def Conversation_end_def
          Conversation_addMessage_def)
  have s: "c_conversationId twelve_minutes
             \<in> set (map c_conversationId
                      (conversations_tbl (Conversation_save twelve_minutes empty_world)))"
    by (simp add: Conversation_save_def upsert_def)
  have t: "c_startTime twenty_five_minutes = 600000
      \<and> c_endTime twenty_five_minutes = Some 2100000
      \<and> length (c_participants twenty_five_minutes) = 2
      \<and> length (c_rawText twenty_five_minutes) = 23"
    by (simp add: twenty_five_minutes_def two_messages_def Conversation_end_def
          Conversation_addMessage_def)
  have u: "c_endTime two_messages = None \<and> length (c_participants two_messages) = 2
      \<and> length (c_rawText two_messages) = 23"
    by (simp add: two_messages_def Conversation_addMessage_def)
  have f: "\<lfloor>(1500000 :: rat) / (1000 * 60) / 10\<rfloor> = 2"
    using floor_minutes[of 1500000] by simp
  have a: "calculateImportance twelve_minutes = 6 \<and> getDuration twelve_minutes = Some 12
      \<and> map_sum id m_importance
         (fst (processConversation example_runtime (Some twelve_minutes) None
                 (Conversation_save twelve_minutes empty_world))) = Inr (Num 6)"
    using calculateImportance_formula[of twelve_minutes example_runtime None
            "Conversation_save twelve_minutes empty_world"] h s
    by simp
  have b: "getDuration twenty_five_minutes = Some 25
      \<and> calculateImportance twenty_five_minutes = 7"
    using calculateImportance_formula[of twenty_five_minutes example_runtime None empty_world]
          t f
    by (simp add: spec_clamp_def)
  have c: "getDuration two_messages = None \<and> calculateImportance two_messages = 5"
    using calculateImportance_formula[of two_messages example_runtime None empty_world] u
    by (simp add: spec_clamp_def)
  from h t a b c show ?thesis by simp
qed

lemma Memory_new_importance:
  "m_importance (fst (Memory_new rt memoryId conversationId summary importance timestamp tags w))
     = Math_min (Math_max (case importance of None \<Rightarrow> Num 5 | Some n \<Rightarrow> n) (Num 1)) (Num 10)"
  by (simp add: Memory_new_def Let_def split_beta)

text \<open>
  C6 fails for an importance that is not a number, against the comment of the
  constructor (\<open>Ensure importance is between 1-10\<close>). The constructor and
  \<open>updateImportance\<close> compute \<open>Math.min(Math.max(importance, 1), 10)\<close>, which is NaN for
  NaN: a memory constructed with the importance NaN (which is also what a string that
  is not numeric converts to), and a memory of importance 7 whose importance is updated
  with undefined or with NaN, has the importance NaN, and NaN is neither at least 1 nor at
  most 10. Nothing is rejected by either operation; only the database refuses such a
  memory when it is saved.
\<close>

theorem importance_NaN:
  "m_importance (fst (Memory_new example_runtime None None ''s'' (Some NaN) None [] empty_world))
     = NaN
   \<and> \<not> js_le (Num 1)
         (m_importance
            (fst (Memory_new example_runtime None None ''s'' (Some NaN) None [] empty_world)))
   \<and> \<not> js_le (m_importance
                (fst (Memory_new example_runtime None None ''s'' (Some NaN) None [] empty_world)))
         (Num 10)
   \<and> m_importance
         (fst (Memory_new example_runtime None None ''s'' (Some (Num 7)) None [] empty_world))
       = Num 7
   \<and> m_importance (updateImportance None
         (fst (Memory_new example_runtime None None ''s'' (Some (Num 7)) None [] empty_world)))
       = NaN
   \<and> m_importance (updateImportance (Some NaN)
         (fst (Memory_new example_runtime None None ''s'' (Some (Num 7)) None [] empty_world)))
       = NaN
   \<and> \<not> js_le (Num 1) (m_importance (updateImportance None
         (fst (Memory_new example_runtime None None ''s'' (Some (Num 7)) None [] empty_world))))
   \<and> \<not> js_le (m_importance (updateImportance None
         (fst (Memory_new example_runtime None None ''s'' (Some (Num 7)) None [] empty_world))))
         (Num 10)
   \<and> Memory_save (updateImportance None
         (fst (Memory_new example_runtime None None ''s'' (Some (Num 7)) None [] empty_world)))
         empty_world
       = (Inl not_null_failed, empty_world)"
  by (simp add: Memory_new_importance updateImportance_def toNumber_def Math_min_def
        Math_max_def Memory_save_def)

text \<open>
  What does hold of C6: for every importance that is a number other than NaN, an
  infinity included, and for a constructor argument that is left out, the constructor and
  \<open>updateImportance\<close> give an importance between 1 and 10, a finite one being clamped;
  and \<open>processConversation\<close>, which returns a memory exactly when the conversation is a
  stored one, returns and stores one within the range.
\<close>

lemma importance_in_range_for_numbers:
  assumes "importance \<noteq> Some NaN" and "toNumber newImportance \<noteq> NaN"
  shows "js_le (Num 1)
           (m_importance (fst (Memory_new rt memoryId conversationId summary importance
                                 timestamp tags w)))
   \<and> js_le (m_importance (fst (Memory_new rt memoryId conversationId summary importance
                                  timestamp tags w))) (Num 10)
   \<and> m_importance (fst (Memory_new rt memoryId conversationId summary (Some (Num r))
                          timestamp tags w)) = Num (spec_clamp r 1 10)
   \<and> m_importance (fst (Memory_new rt memoryId conversationId summary None
                          timestamp tags w)) = Num 5
   \<and> js_le (Num 1) (m_importance (updateImportance newImportance m))
   \<and> js_le (m_importance (updateImportance newImportance m)) (Num 10)
   \<and> m_importance (updateImportance (Some (Num r)) m) = Num (spec_clamp r 1 10)
   \<and> (if c_conversationId c \<in> set (map c_conversationId (conversations_tbl w))
        then \<exists>m' w'. processConversation rt (Some c) maxLength w = (Inr m', w')
               \<and> js_le (Num 1) (m_importance m') \<and> js_le (m_importance m') (Num 10)
               \<and> m' \<in> set (memories_tbl w')
        else fst (processConversation rt (Some c) maxLength w) = Inl foreign_key_failed)"
proof -
  have n: "(case importance of None \<Rightarrow> Num 5 | Some n \<Rightarrow> n) \<noteq> NaN"
    using assms(1) by (cases importance) simp_all
  have p: "if c_conversationId c \<in> set (map c_conversationId (conversations_tbl w))
        then \<exists>m' w'. processConversation rt (Some c) maxLength w = (Inr m', w')
               \<and> js_le (Num 1) (m_importance m') \<and> js_le (m_importance m') (Num 10)
               \<and> m' \<in> set (memories_tbl w')
        else fst (processConversation rt (Some c) maxLength w) = Inl foreign_key_failed"
    using calculateImportance_range[of c]
    by (simp add: processConversation_Some Let_def upsert_def)
  have s: "spec_clamp (5 :: rat) 1 10 = 5" by (simp add: spec_clamp_def)
  show ?thesis
    using clamp_in_range[OF n] clamp_in_range[OF assms(2)] p clamp_Num[of 5] s
    by (simp add: Memory_new_importance updateImportance_def clamp_Num toNumber_def)
qed

text \<open>
  C10 as stated fails: a conversation whose end time is an hour before its start time
  has a duration of -60 minutes, the duration term is \<open>min(2, floor(-6)) = -6\<close>, and
  the importance is clamped up to 1.
\<close>

theorem importance_below_5_counterexample:
  "calculateImportance clock_set_back = 1
   \<and> map_sum id m_importance
         (fst (processConversation example_runtime (Some clock_set_back) None
                 (Conversation_save clock_set_back empty_world))) = Inr (Num 1)"
  by code_simp

text \<open>
  C10, amended. For every conversation that is open or whose end time is not before its
  start time, the importance computed by MemoryProcessor lies between 5 and 9, and so
  does the importance of the memory that \<open>processConversation\<close> returns for it when it
  is a stored conversation.
\<close>

theorem importance_5_to_9:
  assumes "\<forall>e. c_endTime c = Some e \<longrightarrow> c_startTime c \<le> e"
  shows "5 \<le> calculateImportance c \<and> calculateImportance c \<le> 9
         \<and> (c_conversationId c \<in> set (map c_conversationId (conversations_tbl w)) \<longrightarrow>
              (\<exists>m w'. processConversation rt (Some c) maxLength w = (Inr m, w')
                 \<and> m_importance m = Num (of_int (calculateImportance c))
                 \<and> js_le (Num 5) (m_importance m) \<and> js_le (m_importance m) (Num 9)))"
proof -
  have d: "(case getDuration c of None \<Rightarrow> 0 | Some d \<Rightarrow> min 2 \<lfloor>d / 10\<rfloor>) \<in> {0..2}"
  proof (cases "c_endTime c")
    case None
    then show ?thesis by (simp add: getDuration_def)
  next
    case (Some e)
    with assms have "0 \<le> e - c_startTime c" by simp
    then have "0 \<le> (e - c_startTime c) div 600000"
      by (simp add: pos_imp_zdiv_nonneg_iff)
    with Some show ?thesis by (simp add: getDuration_def floor_minutes)
  qed
  have r: "5 \<le> calculateImportance c \<and> calculateImportance c \<le> 9"
    using d unfolding calculateImportance_unfolded by auto
  then show ?thesis by (simp add: processConversation_Some Let_def)
qed

theorem importance_5_to_9_witness:
  "c_startTime twelve_minutes = 0 \<and> c_endTime twelve_minutes = Some 720000
   \<and> 5 \<le> calculateImportance twelve_minutes \<and> calculateImportance twelve_minutes \<le> 9
   \<and> (\<exists>m w'. processConversation example_runtime (Some twelve_minutes) None
                   (Conversation_save twelve_minutes empty_world) = (Inr m, w')
          \<and> m_importance m = Num (of_int (calculateImportance twelve_minutes))
          \<and> js_le (Num 5) (m_importance m) \<and> js_le (m_importance m) (Num 9))"
proof -
  have h: "c_startTime twelve_minutes = 0 \<and> c_endTime twelve_minutes = Some 720000"
    by (simp add: twelve_minutes_def two_messages_def Conversation_end_def
          Conversation_addMessage_def)
  then have t: "\<forall>e. c_endTime twelve_minutes = Some e \<longrightarrow> c_startTime twelve_minutes \<le> e"
    by simp
  have s: "c_conversationId twelve_minutes
             \<in> set (map c_conversationId
                      (conversations_tbl (Conversation_save twelve_minutes empty_world)))"
    by (simp add: Conversation_save_def upsert_def)
  from importance_5_to_9[OF t, of "Conversation_save twelve_minutes empty_world"
         example_runtime None] h s
  show ?thesis by simp
qed
section \<open>MemoryProcessor: summary\<close>

lemma lastIndexOf_range: "-1 \<le> lastIndexOf s c \<and> lastIndexOf s c < int (length s)"
  by (induction s) (auto simp: Let_def)

lemma lastIndexOf_neg: "(lastIndexOf s c < 0) = (c \<notin> set s)"
proof (induction s)
  case Nil
  then show ?case by simp
next
  case (Cons x xs)
  then show ?case by (auto simp: Let_def)
qed

lemma lastIndexOf_at: "0 \<le> lastIndexOf s c \<Longrightarrow> s ! nat (lastIndexOf s c) = c"
proof (induction s)
  case Nil
  then show ?case by simp
next
  case (Cons x xs)
  show ?case
  proof (cases "0 \<le> lastIndexOf xs c")
    case True
    then have "nat (lastIndexOf xs c + 1) = Suc (nat (lastIndexOf xs c))" by simp
    with True Cons.IH show ?thesis by (simp add: Let_def)
  next
    case False
    with Cons.prems show ?thesis by (simp add: Let_def split: if_splits)
  qed
qed

lemma lastIndexOf_after:
  "nat (lastIndexOf s c) < j \<Longrightarrow> j < length s \<Longrightarrow> 0 \<le> lastIndexOf s c \<Longrightarrow> s ! j \<noteq> c"
proof (induction s arbitrary: j)
  case Nil
  then show ?case by simp
next
  case (Cons x xs)
  from Cons.prems(1) obtain k where j: "j = Suc k" by (cases j) auto
  show ?case
  proof (cases "0 \<le> lastIndexOf xs c")
    case True
    then have "nat (lastIndexOf xs c + 1) = Suc (nat (lastIndexOf xs c))" by simp
    with True Cons.prems j have "nat (lastIndexOf xs c) < k" "k < length xs"
      by (simp_all add: Let_def)
    with True Cons.IH[of k] j show ?thesis by simp
  next
    case False
    then have "c \<notin> set xs" using lastIndexOf_neg[of xs c] by simp
    with j Cons.prems(2) show ?thesis by auto
  qed
qed

text \<open>
  C5 as stated fails on the boundary: the code backs off to the last space character,
  not to the last whitespace. Cutting the transcript of two messages at 15 leaves
  \<open>user: hello\<close>, a line feed and \<open>cla\<close>; the last whitespace before the cut is the
  line feed, the last space is the one after \<open>user:\<close>.
\<close>

theorem summary_whitespace_counterexample:
  "c_rawText two_messages = ''user: hello'' @ [CHR 0x0A] @ ''claude: hi'' @ [CHR 0x0A]
   \<and> generateSummary example_runtime two_messages (Some 15) = ''user:...''
   \<and> spec_truncate (c_rawText two_messages) 15 = ''user: hello...''"
  by code_simp

text \<open>The summary of a transcript that is longer than \<open>maxLength\<close>.\<close>

lemma generateSummary_truncated:
  assumes "c_rawText c \<noteq> []" and "maxLength < int (length (c_rawText c))"
  shows "generateSummary rt c (Some maxLength) =
           take (nat (lastIndexOf (take (nat maxLength) (c_rawText c)) CHR '' '')) (c_rawText c)
           @ ''...''"
proof -
  let ?t = "c_rawText c"
  let ?s = "take (nat maxLength) ?t"
  from assms have "0 < length ?t" by simp
  with assms have lt: "nat maxLength < length ?t" by linarith
  then have len: "length ?s = nat maxLength" "nat maxLength < length ?t" by simp_all
  have "lastIndexOf ?s CHR '' '' < int (length ?s)" using lastIndexOf_range by blast
  then have "nat (lastIndexOf ?s CHR '' '') \<le> nat maxLength" using len by linarith
  then have "take (nat (lastIndexOf ?s CHR '' '')) ?s = take (nat (lastIndexOf ?s CHR '' '')) ?t"
    by (simp add: min_def)
  with assms len show ?thesis
    by (simp add: generateSummary_def getFullText_def substring0_def Let_def min_def)
qed

text \<open>
  C5, amended. For a transcript that is not empty and longer than \<open>maxLength\<close> (500 when
  the option is absent), the summary is the prefix of the transcript that ends just
  before the last space character among its first \<open>maxLength\<close> characters, followed by
  three dots; other whitespace, such as the line feed that ends each message, is not a
  boundary, and when those characters hold no space the summary is the three dots alone.
  A non-empty transcript of at most \<open>maxLength\<close> characters is returned as it is. For an
  empty transcript the summary names the participants and, for a closed conversation of
  non-zero duration, the duration.
\<close>

theorem generateSummary_cases:
  "(c_rawText c \<noteq> [] \<and> maxLength < int (length (c_rawText c)) \<longrightarrow>
      (if CHR '' '' \<in> set (take (nat maxLength) (c_rawText c))
       then \<exists>k. k < nat maxLength \<and> c_rawText c ! k = CHR '' ''
              \<and> (\<forall>j. k < j \<and> j < nat maxLength \<longrightarrow> c_rawText c ! j \<noteq> CHR '' '')
              \<and> generateSummary rt c (Some maxLength) = take k (c_rawText c) @ ''...''
       else generateSummary rt c (Some maxLength) = ''...''))
   \<and> (c_rawText c \<noteq> [] \<and> int (length (c_rawText c)) \<le> maxLength \<longrightarrow>
        generateSummary rt c (Some maxLength) = c_rawText c)
   \<and> (c_rawText c = [] \<longrightarrow>
        generateSummary rt c (Some maxLength) =
          ''Conversation with '' @ join '', '' (c_participants c)
          @ (case getDuration c of
               None \<Rightarrow> []
             | Some d \<Rightarrow> if d = 0 then [] else '' lasting '' @ rt_toFixed1 rt d @ '' minutes''))
   \<and> generateSummary rt c None = generateSummary rt c (Some 500)"
proof (intro conjI impI)
  assume a: "c_rawText c \<noteq> [] \<and> maxLength < int (length (c_rawText c))"
  let ?t = "c_rawText c"
  let ?s = "take (nat maxLength) ?t"
  let ?r = "lastIndexOf ?s CHR '' ''"
  from a have "0 < length ?t" by simp
  with a have lt: "nat maxLength < length ?t" by linarith
  then have len: "length ?s = nat maxLength" by simp
  have eq: "generateSummary rt c (Some maxLength) = take (nat ?r) ?t @ ''...''"
    using a generateSummary_truncated by blast
  show "if CHR '' '' \<in> set ?s
       then \<exists>k. k < nat maxLength \<and> ?t ! k = CHR '' ''
              \<and> (\<forall>j. k < j \<and> j < nat maxLength \<longrightarrow> ?t ! j \<noteq> CHR '' '')
              \<and> generateSummary rt c (Some maxLength) = take k ?t @ ''...''
       else generateSummary rt c (Some maxLength) = ''...''"
  proof (cases "CHR '' '' \<in> set ?s")
    case True
    then have r0: "0 \<le> ?r" using lastIndexOf_neg[of ?s "CHR '' ''"] by simp
    have "?r < int (length ?s)" using lastIndexOf_range by blast
    with len r0 have k: "nat ?r < nat maxLength" by linarith
    have at: "?t ! nat ?r = CHR '' ''"
      using lastIndexOf_at[OF r0] k by simp
    have after: "\<forall>j. nat ?r < j \<and> j < nat maxLength \<longrightarrow> ?t ! j \<noteq> CHR '' ''"
    proof (intro allI impI)
      fix j assume j: "nat ?r < j \<and> j < nat maxLength"
      with lt have jt: "j < length ?t" by linarith
      with j have js: "j < length ?s" by simp
      from j have "nat ?r < j" by simp
      from lastIndexOf_after[OF this js r0] have "?s ! j \<noteq> CHR '' ''" .
      with j show "?t ! j \<noteq> CHR '' ''" by simp
    qed
    from k at after eq
    have "\<exists>k. k < nat maxLength \<and> ?t ! k = CHR '' ''
              \<and> (\<forall>j. k < j \<and> j < nat maxLength \<longrightarrow> ?t ! j \<noteq> CHR '' '')
              \<and> generateSummary rt c (Some maxLength) = take k ?t @ ''...''"
      by (intro exI[of _ "nat ?r"]) blast
    with True show ?thesis by (simp only: if_True)
  next
    case False
    then have "?r < 0" using lastIndexOf_neg[of ?s "CHR '' ''"] by simp
    with False eq show ?thesis by simp
  qed
next
  assume b: "c_rawText c \<noteq> [] \<and> int (length (c_rawText c)) \<le> maxLength"
  then have "min maxLength (int (length (c_rawText c))) = int (length (c_rawText c))" by simp
  then have "substring0 (c_rawText c) (min maxLength (int (length (c_rawText c)))) = c_rawText c"
    by (simp add: substring0_def)
  with b show "generateSummary rt c (Some maxLength) = c_rawText c"
    by (simp add: generateSummary_def getFullText_def Let_def)
next
  assume "c_rawText c = []"
  then show "generateSummary rt c (Some maxLength) =
          ''Conversation with '' @ join '', '' (c_participants c)
          @ (case getDuration c of
               None \<Rightarrow> []
             | Some d \<Rightarrow> if d = 0 then [] else '' lasting '' @ rt_toFixed1 rt d @ '' minutes'')"
    by (simp add: generateSummary_def getFullText_def Let_def split: option.splits)
next
  show "generateSummary rt c None = generateSummary rt c (Some 500)"
    by (simp add: generateSummary_def)
qed

theorem generateSummary_cases_witness:
  "length (c_rawText two_messages) = 23
   \<and> CHR '' '' \<in> set (take 15 (c_rawText two_messages))
   \<and> (\<exists>k<15. generateSummary example_runtime two_messages (Some 15)
               = take k (c_rawText two_messages) @ ''...'')
   \<and> generateSummary example_runtime two_messages (Some 23) = c_rawText two_messages
   \<and> generateSummary example_runtime no_messages (Some 500)
       = ''Conversation with user, claude lasting 12.0 minutes''"
proof -
  have t: "c_rawText two_messages = ''user: hello'' @ [CHR 0x0A] @ ''claude: hi'' @ [CHR 0x0A]"
    by code_simp
  have e: "c_rawText no_messages = []" "c_participants no_messages = [''user'', ''claude'']"
    "getDuration no_messages = Some 12"
    by (simp_all add: no_messages_def getDuration_def)
  from generateSummary_cases[of two_messages 15 example_runtime]
       generateSummary_cases[of two_messages 23 example_runtime]
       generateSummary_cases[of no_messages 500 example_runtime] t e
  show ?thesis by (auto simp: example_runtime_def)
qed

section \<open>The lifecycle controller\<close>

text \<open>
  C7. \<open>endConversation\<close> without an open conversation returns null and raises nothing,
  and so does \<open>sleep\<close> while asleep; in both cases the controller and the tables are as
  before, and the only effect is one warning on the console.
\<close>

theorem forgiving_operations:
  "(l_currentConversation l = None \<longrightarrow>
      endConversation rt maxLength l w
        = (Inr None, l, w\<lparr>console := console w @ [Warn ''No active conversation to end'']\<rparr>))
   \<and> (\<not> l_isAwake l \<longrightarrow>
        sleep rt options l w
          = (Inr None, l, w\<lparr>console := console w @ [Warn ''System is already asleep'']\<rparr>))"
  by (simp add: endConversation_def sleep_def console_warn_def)

theorem forgiving_operations_witness:
  "l_currentConversation (LTMSQL_new no_options) = None
   \<and> \<not> l_isAwake (LTMSQL_new no_options)
   \<and> endConversation example_runtime None (LTMSQL_new no_options) empty_world
       = (Inr None, LTMSQL_new no_options,
          empty_world\<lparr>console := [Warn ''No active conversation to end'']\<rparr>)
   \<and> sleep example_runtime no_options (LTMSQL_new no_options) empty_world
       = (Inr None, LTMSQL_new no_options,
          empty_world\<lparr>console := [Warn ''System is already asleep'']\<rparr>)"
proof -
  have h: "l_currentConversation (LTMSQL_new no_options) = None"
          "\<not> l_isAwake (LTMSQL_new no_options)"
    by (simp_all add: LTMSQL_new_def)
  have c: "console empty_world = []" by (simp add: empty_world_def)
  from forgiving_operations[of "LTMSQL_new no_options" example_runtime None empty_world no_options]
       h c
  show ?thesis by simp
qed

text \<open>Ending and starting a conversation change no field of the controller but the
  current conversation.\<close>

lemma endConversation_frame:
  "(fst (snd (endConversation rt maxLength l w)))\<lparr>l_currentConversation := x\<rparr>
     = l\<lparr>l_currentConversation := x\<rparr>"
  by (auto simp: endConversation_def processConversation_Some Let_def split_beta newDate_def
        split: option.splits)

lemma startConversation_frame:
  "(fst (snd (startConversation rt participants ctx l w)))\<lparr>l_currentConversation := x\<rparr>
     = l\<lparr>l_currentConversation := x\<rparr>"
proof (cases "l_currentConversation l")
  case None
  then show ?thesis
    by (auto simp: startConversation_def Let_def split_beta)
next
  case (Some c)
  obtain r l1 w1 where e: "endConversation rt None l
        (console_warn ''Ending existing conversation before starting a new one'' w) = (r, l1, w1)"
    by (cases "endConversation rt None l
        (console_warn ''Ending existing conversation before starting a new one'' w)") auto
  from endConversation_frame[where rt = rt and maxLength = None and l = l and x = x
        and w = "console_warn ''Ending existing conversation before starting a new one'' w"] e
  have l1: "l1\<lparr>l_currentConversation := x\<rparr> = l\<lparr>l_currentConversation := x\<rparr>" by simp
  show ?thesis
  proof (cases r)
    case (Inl err)
    with Some e l1 show ?thesis by (simp add: startConversation_def)
  next
    case (Inr y)
    with Some e l1 show ?thesis by (simp add: startConversation_def Let_def split_beta)
  qed
qed

lemma frame_fields:
  assumes "l1\<lparr>l_currentConversation := None\<rparr> = l\<lparr>l_currentConversation := None\<rparr>"
  shows "l_isAwake l1 = l_isAwake l" and "l_awakeningContext l1 = l_awakeningContext l"
    and "l_persona l1 = l_persona l" and "l_options l1 = l_options l"
proof -
  from assms have "l_isAwake (l1\<lparr>l_currentConversation := None\<rparr>)
      = l_isAwake (l\<lparr>l_currentConversation := None\<rparr>)" by simp
  then show "l_isAwake l1 = l_isAwake l" by simp
  from assms have "l_awakeningContext (l1\<lparr>l_currentConversation := None\<rparr>)
      = l_awakeningContext (l\<lparr>l_currentConversation := None\<rparr>)" by simp
  then show "l_awakeningContext l1 = l_awakeningContext l" by simp
  from assms have "l_persona (l1\<lparr>l_currentConversation := None\<rparr>)
      = l_persona (l\<lparr>l_currentConversation := None\<rparr>)" by simp
  then show "l_persona l1 = l_persona l" by simp
  from assms have "l_options (l1\<lparr>l_currentConversation := None\<rparr>)
      = l_options (l\<lparr>l_currentConversation := None\<rparr>)" by simp
  then show "l_options l1 = l_options l" by simp
qed

text \<open>Neither does the part of \<open>startConversation\<close> that \<open>awaken\<close> runs, nor the work
  that it leaves in flight.\<close>

lemma startConversation_unawaited_frame:
  "(fst (startConversation_unawaited rt participants ctx l w))\<lparr>l_currentConversation := x\<rparr>
     = l\<lparr>l_currentConversation := x\<rparr>"
  by (simp add: startConversation_unawaited_def Let_def split_beta split: option.splits)

lemma endConversation_rest_frame:
  "(fst (snd (endConversation_rest rt maxLength l w)))\<lparr>l_currentConversation := x\<rparr>
     = l\<lparr>l_currentConversation := x\<rparr>"
  by (auto simp: endConversation_rest_def processConversation_Some Let_def split_beta
        split: option.splits)

lemma startConversation_rest_frame: "fst (snd (startConversation_rest l w)) = l"
  by (simp add: startConversation_rest_def split: option.splits)

lemma run_deferred_frame:
  "(fst (run_deferred rt d l w))\<lparr>l_currentConversation := x\<rparr> = l\<lparr>l_currentConversation := x\<rparr>"
proof (cases d)
  case (StartedSave c)
  obtain r l1 w1 where s: "startConversation_rest l (Conversation_save c w) = (r, l1, w1)"
    by (cases "startConversation_rest l (Conversation_save c w)") auto
  with startConversation_rest_frame[of l "Conversation_save c w"] have "l1 = l" by simp
  with s StartedSave show ?thesis by (cases r) simp_all
next
  case (EndingSave c participants ctx)
  obtain r l1 w1 where e: "endConversation_rest rt None l (Conversation_save c w) = (r, l1, w1)"
    by (cases "endConversation_rest rt None l (Conversation_save c w)") auto
  with endConversation_rest_frame[where rt = rt and maxLength = None and l = l
         and w = "Conversation_save c w" and x = x]
  have l1: "l1\<lparr>l_currentConversation := x\<rparr> = l\<lparr>l_currentConversation := x\<rparr>" by simp
  show ?thesis
  proof (cases r)
    case (Inl err)
    with EndingSave e l1 show ?thesis by simp
  next
    case (Inr y)
    with EndingSave e l1 show ?thesis
      by (simp add: Let_def split_beta startConversation_rest_def)
  qed
qed

lemma settle_frame:
  "(fst (settle rt l w))\<lparr>l_currentConversation := x\<rparr> = l\<lparr>l_currentConversation := x\<rparr>"
proof -
  have "(fst (foldl (\<lambda>(l, w) d. run_deferred rt d l w) (l, w') ds))\<lparr>l_currentConversation := x\<rparr>
          = l\<lparr>l_currentConversation := x\<rparr>" for ds w'
  proof (induction ds arbitrary: l w')
    case Nil
    show ?case by simp
  next
    case (Cons d ds)
    obtain l1 w1 where r: "run_deferred rt d l w' = (l1, w1)"
      by (cases "run_deferred rt d l w'") auto
    with run_deferred_frame[where rt = rt and d = d and l = l and w = w' and x = x]
         Cons.IH[of l1 w1] show ?case by simp
  qed
  then show ?thesis by (simp add: settle_def)
qed

text \<open>
  The pieces into which the model cuts \<open>endConversation\<close> and \<open>startConversation\<close> are
  these operations: \<open>endConversation\<close> is its part before the save, the save, and its
  rest; and when nothing else is in flight, \<open>startConversation\<close> called without \<open>await\<close>
  and followed at once by the pending work leaves what the awaited call leaves.
\<close>

lemma endConversation_split:
  assumes "l_currentConversation l = Some c"
  shows "endConversation rt maxLength l w =
     (let (now, w) = newDate rt w;
          c = Conversation_end now c;
          l = l\<lparr>l_currentConversation := Some c\<rparr>
      in endConversation_rest rt maxLength l (Conversation_save c w))"
  using assms
  by (simp add: endConversation_def endConversation_rest_def Let_def split_beta)

lemma startConversation_awaited:
  assumes "inflight w = []"
  shows "(case startConversation_unawaited rt participants ctx l w of
            (l1, w1) \<Rightarrow> settle rt l1 w1)
         = snd (startConversation rt participants ctx l w)"
proof (cases "l_currentConversation l")
  case None
  with assms show ?thesis
    by (simp add: startConversation_unawaited_def startConversation_def settle_def Let_def
          split_beta startConversation_rest_def Conversation_save_def console_log_def
          newDate_def Conversation_new_def idOrFresh_def uuidv4_def dateOrNow_def)
next
  case (Some c)
  with assms show ?thesis
    by (simp add: startConversation_unawaited_def startConversation_def settle_def
          endConversation_def endConversation_rest_def processConversation_Some Let_def
          split_beta startConversation_rest_def Conversation_save_def console_log_def
          console_warn_def newDate_def Conversation_new_def idOrFresh_def uuidv4_def
          dateOrNow_def upsert_def Conversation_end_def)
qed

lemma awaken_awake:
  "l_isAwake l \<Longrightarrow>
     awaken rt options l w
       = (Inr (l_awakeningContext l), l, w\<lparr>console := console w @ [Warn ''System is already awake'']\<rparr>)"
  by (simp add: awaken_def console_warn_def)

lemma awaken_result:
  "l_isAwake (fst (snd (awaken rt options l w)))
   \<and> fst (awaken rt options l w) = Inr (l_awakeningContext (fst (snd (awaken rt options l w))))"
proof (cases "l_isAwake l")
  case True
  then show ?thesis by (simp add: awaken_awake)
next
  case False
  obtain ctx0 w0 where a: "AwakeningService_awaken rt (spread (l_options l) options) w = (ctx0, w0)"
    by (cases "AwakeningService_awaken rt (spread (l_options l) options) w") auto
  let ?l0 = "l\<lparr>l_awakeningContext := Some ctx0, l_isAwake := True\<rparr>"
  obtain l1 w1 where s: "startConversation_unawaited rt [''user'', ''claude''] [] ?l0 w0 = (l1, w1)"
    by (cases "startConversation_unawaited rt [''user'', ''claude''] [] ?l0 w0") auto
  from startConversation_unawaited_frame[where rt = rt and participants = "[''user'', ''claude'']"
        and ctx = "[]" and l = ?l0 and w = w0 and x = None] s
  have "l1\<lparr>l_currentConversation := None\<rparr> = ?l0\<lparr>l_currentConversation := None\<rparr>" by simp
  from frame_fields(1,2)[OF this] have "l_isAwake l1" "l_awakeningContext l1 = Some ctx0"
    by simp_all
  with False a s show ?thesis by (simp add: awaken_def Let_def)
qed

text \<open>
  C3. When the controller is awake, \<open>awaken\<close> with any options returns the existing
  context, raises nothing, and leaves the controller (the open conversation included)
  and the tables as they are: its only effect is a warning on the console. In
  particular a call of \<open>awaken\<close> that follows another call of \<open>awaken\<close> returns the context
  that the first call returned and opens no conversation.
\<close>

theorem awaken_twice:
  "(l_isAwake l \<longrightarrow>
      awaken rt options l w
        = (Inr (l_awakeningContext l), l,
           w\<lparr>console := console w @ [Warn ''System is already awake'']\<rparr>))
   \<and> (\<forall>r1 l1 w1. awaken rt options l w = (r1, l1, w1) \<longrightarrow>
         awaken rt options2 l1 w1
           = (r1, l1, w1\<lparr>console := console w1 @ [Warn ''System is already awake'']\<rparr>))"
proof (intro conjI impI allI)
  assume "l_isAwake l"
  then show "awaken rt options l w
        = (Inr (l_awakeningContext l), l,
           w\<lparr>console := console w @ [Warn ''System is already awake'']\<rparr>)"
    by (rule awaken_awake)
next
  fix r1 l1 w1
  assume a: "awaken rt options l w = (r1, l1, w1)"
  with awaken_result[of rt options l w]
  have "l_isAwake l1" "r1 = Inr (l_awakeningContext l1)" by simp_all
  then show "awaken rt options2 l1 w1
           = (r1, l1, w1\<lparr>console := console w1 @ [Warn ''System is already awake'']\<rparr>)"
    by (simp add: awaken_awake)
qed

theorem awaken_twice_witness:
  "l_isAwake (fst just_awakened)
   \<and> awaken example_runtime no_options (fst just_awakened) (snd just_awakened)
       = (fst (awaken example_runtime no_options (fst initialized_system)
                 (snd initialized_system)),
          fst just_awakened,
          (snd just_awakened)\<lparr>console := console (snd just_awakened)
                                           @ [Warn ''System is already awake'']\<rparr>)
   \<and> l_isAwake (fst awake_system)
   \<and> map_option c_conversationId (l_currentConversation (fst awake_system)) = Some ''uu''
   \<and> awaken example_runtime no_options (fst awake_system) (snd awake_system)
       = (Inr (l_awakeningContext (fst awake_system)), fst awake_system,
          (snd awake_system)\<lparr>console := console (snd awake_system)
                                          @ [Warn ''System is already awake'']\<rparr>)
   \<and> \<not> l_isAwake (fst initialized_system)
   \<and> fst (awaken example_runtime no_options (fst awake_system) (snd awake_system))
       = fst (awaken example_runtime no_options (fst initialized_system)
                (snd initialized_system))"
proof -
  let ?r0 = "awaken example_runtime no_options (fst initialized_system) (snd initialized_system)"
  have j: "just_awakened = snd ?r0" by (simp add: just_awakened_def)
  from awaken_result[of example_runtime no_options "fst initialized_system"
         "snd initialized_system"]
  have r1: "l_isAwake (fst just_awakened)"
           "fst ?r0 = Inr (l_awakeningContext (fst just_awakened))"
    by (simp_all add: j)
  have h: "l_isAwake (fst awake_system)" by code_simp
  have c: "map_option c_conversationId (l_currentConversation (fst awake_system)) = Some ''uu''"
    by code_simp
  have i: "\<not> l_isAwake (fst initialized_system)" by code_simp
  have "(fst awake_system)\<lparr>l_currentConversation := None\<rparr>
          = (fst just_awakened)\<lparr>l_currentConversation := None\<rparr>"
    unfolding awake_system_def by (rule settle_frame)
  from frame_fields(2)[OF this]
  have f: "l_awakeningContext (fst awake_system) = l_awakeningContext (fst just_awakened)" .
  have t1: "awaken example_runtime no_options (fst awake_system) (snd awake_system)
       = (Inr (l_awakeningContext (fst awake_system)), fst awake_system,
          (snd awake_system)\<lparr>console := console (snd awake_system)
                                          @ [Warn ''System is already awake'']\<rparr>)"
    using awaken_twice[of "fst awake_system" example_runtime no_options "snd awake_system"] h
    by simp
  have "?r0 = (fst ?r0, fst just_awakened, snd just_awakened)" by (simp add: j)
  with awaken_twice[of "fst initialized_system" example_runtime no_options
         "snd initialized_system" no_options]
  have t2: "awaken example_runtime no_options (fst just_awakened) (snd just_awakened)
       = (fst ?r0, fst just_awakened,
          (snd just_awakened)\<lparr>console := console (snd just_awakened)
                                           @ [Warn ''System is already awake'']\<rparr>)"
    by blast
  from t1 r1(2) f
  have t3: "fst (awaken example_runtime no_options (fst awake_system) (snd awake_system))
       = fst ?r0" by simp
  from r1(1) t2 h c t1 i t3 show ?thesis by (intro conjI)
qed

text \<open>What \<open>endConversation\<close> does to an open conversation.\<close>

lemma endConversation_Some:
  assumes "l_currentConversation l = Some c"
  shows "\<exists>m w1. endConversation rt maxLength l w
                  = (Inr (Some m), l\<lparr>l_currentConversation := None\<rparr>, w1)
           \<and> m \<in> set (memories_tbl w1)
           \<and> m_conversationId m = Some (c_conversationId c)
           \<and> m_summary m
                = generateSummary rt (c\<lparr>c_endTime := Some (rt_clock rt (dateCalls w))\<rparr>) maxLength
           \<and> m_importance m
                = Num (of_int (calculateImportance
                                 (c\<lparr>c_endTime := Some (rt_clock rt (dateCalls w))\<rparr>)))
           \<and> conversations_tbl w1
                = filter (\<lambda>row. c_conversationId row \<noteq> c_conversationId c) (conversations_tbl w)
                  @ [c\<lparr>c_endTime := Some (rt_clock rt (dateCalls w)), c_messages := []\<rparr>]"
  using assms
  by (simp add: endConversation_def processConversation_Some Let_def newDate_def
        Conversation_save_def console_log_def upsert_def Conversation_end_def)

text \<open>Reading rows into objects leaves the tables as they are.\<close>

lemma Memory_of_row_memories:
  "memories_tbl (snd (Memory_of_row rt row w)) = memories_tbl w"
  by (simp add: Memory_of_row_def Memory_new_def idOrFresh_def uuidv4_def dateOrNow_def
        Let_def split_beta)

lemma Memory_of_row_conversations:
  "conversations_tbl (snd (Memory_of_row rt row w)) = conversations_tbl w"
  by (simp add: Memory_of_row_def Memory_new_def idOrFresh_def uuidv4_def dateOrNow_def
        Let_def split_beta)

lemma mapW_Memory_of_row_memories:
  "memories_tbl (snd (mapW (Memory_of_row rt) rows w)) = memories_tbl w"
proof (induction rows arbitrary: w)
  case Nil
  then show ?case by simp
next
  case (Cons row rows)
  then show ?case
    using Memory_of_row_memories[of rt row w] by (simp add: split_beta)
qed

lemma mapW_Memory_of_row_conversations:
  "conversations_tbl (snd (mapW (Memory_of_row rt) rows w)) = conversations_tbl w"
proof (induction rows arbitrary: w)
  case Nil
  then show ?case by simp
next
  case (Cons row rows)
  then show ?case
    using Memory_of_row_conversations[of rt row w] by (simp add: split_beta)
qed

lemma Memory_getRecent_memories:
  "memories_tbl (snd (Memory_getRecent rt limit w)) = memories_tbl w"
  by (simp add: Memory_getRecent_def mapW_Memory_of_row_memories)

lemma Memory_getRecent_conversations:
  "conversations_tbl (snd (Memory_getRecent rt limit w)) = conversations_tbl w"
  by (simp add: Memory_getRecent_def mapW_Memory_of_row_conversations)

text \<open>The persona is saved before the update is, so the update's reference to it is
  met: \<open>evolveDreamstate\<close> of a persona returns, and it leaves the memories and the
  conversations alone.\<close>

lemma evolveDreamstate_memories:
  "memories_tbl (snd (evolveDreamstate rt personaOpt recentMemories w)) = memories_tbl w"
  by (cases personaOpt)
     (simp_all add: evolveDreamstate_def Let_def split_beta updateTraits_def updateValues_def
        updatePreferences_def updateBiography_def newDate_def Persona_save_def
        DreamstateUpdate_new_def DreamstateUpdate_save_def idOrFresh_def uuidv4_def dateOrNow_def
        upsert_def split: option.splits)

lemma evolveDreamstate_conversations:
  "conversations_tbl (snd (evolveDreamstate rt personaOpt recentMemories w))
     = conversations_tbl w"
  by (cases personaOpt)
     (simp_all add: evolveDreamstate_def Let_def split_beta updateTraits_def updateValues_def
        updatePreferences_def updateBiography_def newDate_def Persona_save_def
        DreamstateUpdate_new_def DreamstateUpdate_save_def idOrFresh_def uuidv4_def dateOrNow_def
        upsert_def split: option.splits)

lemma evolveDreamstate_returns:
  "\<exists>u p. fst (evolveDreamstate rt (Some persona) recentMemories w) = Inr (u, p)"
  by (simp add: evolveDreamstate_def Let_def split_beta updateTraits_def updateValues_def
        updatePreferences_def updateBiography_def newDate_def Persona_save_def
        DreamstateUpdate_new_def DreamstateUpdate_save_def idOrFresh_def uuidv4_def dateOrNow_def
        upsert_def split: option.splits)

text \<open>\<open>sleep\<close> of an awake controller without an open conversation.\<close>

lemma sleep_no_conversation:
  assumes "l_isAwake l" and "l_currentConversation l = None"
  shows "sleep rt options l w =
     (let (recentMemories, w2) = Memory_getRecent rt (limitOr10 (recentMemoriesLimit options)) w
      in case evolveDreamstate rt (l_persona l) recentMemories w2 of
           (Inl e, w3) \<Rightarrow> (Inl e, l, w3)
         | (Inr (dreamstateUpdate, persona), w3) \<Rightarrow>
             (Inr (Some dreamstateUpdate),
              l\<lparr>l_persona := Some persona, l_awakeningContext := None, l_isAwake := False\<rparr>,
              console_log (''Created dreamstate update ID: '' @ u_updateId dreamstateUpdate)
                (console_log ''System entered sleep state'' w3)))"
  using assms by (simp add: sleep_def)

lemma sleep_open_conversation:
  assumes "l_isAwake l" and "l_currentConversation l = Some c"
  shows "sleep rt options l w =
     (case endConversation rt None l w of (r, l1, w1) \<Rightarrow> sleep rt options l1 w1)"
proof -
  from endConversation_Some[OF assms(2), of rt None w]
  obtain m w1 where e: "endConversation rt None l w
      = (Inr (Some m), l\<lparr>l_currentConversation := None\<rparr>, w1)" by blast
  with assms show ?thesis by (simp add: sleep_def)
qed

text \<open>
  What \<open>sleep\<close> itself does to an open conversation, up to the moment it returns. The
  conversation is closed first: it gets the time of the call as its end time and is
  saved, so that the one row of its id carries that end time; a memory derived from it
  (its conversation id, the summary and the importance of its transcript) is stored, and
  the reference to it is cleared. The recent memories are read, and the persona evolution
  is run, in the state that this leaves, whose memory table holds that memory. Whatever
  the evolution step returns, when \<open>sleep\<close> returns no conversation is current, the row
  with the end time and the memory are in their tables; when the controller has a
  persona, \<open>sleep\<close> returns an update and the controller is asleep.
\<close>

lemma sleep_ends_open_conversation:
  assumes "l_isAwake l" and "l_currentConversation l = Some c"
  shows "\<exists>m l1 w1 recentMemories w2.
      endConversation rt None l w = (Inr (Some m), l1, w1)
    \<and> l_currentConversation l1 = None
    \<and> conversations_tbl w1
        = filter (\<lambda>row. c_conversationId row \<noteq> c_conversationId c) (conversations_tbl w)
          @ [c\<lparr>c_endTime := Some (rt_clock rt (dateCalls w)), c_messages := []\<rparr>]
    \<and> m \<in> set (memories_tbl w1)
    \<and> m_conversationId m = Some (c_conversationId c)
    \<and> m_summary m = generateSummary rt (c\<lparr>c_endTime := Some (rt_clock rt (dateCalls w))\<rparr>) None
    \<and> m_importance m
        = Num (of_int (calculateImportance (c\<lparr>c_endTime := Some (rt_clock rt (dateCalls w))\<rparr>)))
    \<and> Memory_getRecent rt (limitOr10 (recentMemoriesLimit options)) w1 = (recentMemories, w2)
    \<and> m \<in> set (memories_tbl w2)
    \<and> fst (sleep rt options l w)
        = map_sum id (Some \<circ> fst) (fst (evolveDreamstate rt (l_persona l) recentMemories w2))
    \<and> l_currentConversation (fst (snd (sleep rt options l w))) = None
    \<and> m \<in> set (memories_tbl (snd (snd (sleep rt options l w))))
    \<and> conversations_tbl (snd (snd (sleep rt options l w))) = conversations_tbl w1
    \<and> (\<forall>row \<in> set (conversations_tbl (snd (snd (sleep rt options l w)))).
          c_conversationId row = c_conversationId c
          \<longrightarrow> c_endTime row = Some (rt_clock rt (dateCalls w)))
    \<and> (l_persona l \<noteq> None \<longrightarrow>
          \<not> l_isAwake (fst (snd (sleep rt options l w)))
          \<and> (\<exists>u. fst (sleep rt options l w) = Inr (Some u)))"
proof -
  let ?c = "c\<lparr>c_endTime := Some (rt_clock rt (dateCalls w))\<rparr>"
  let ?l1 = "l\<lparr>l_currentConversation := None\<rparr>"
  from endConversation_Some[OF assms(2), of rt None w]
  obtain m w1 where e: "endConversation rt None l w = (Inr (Some m), ?l1, w1)"
    and m: "m \<in> set (memories_tbl w1)" "m_conversationId m = Some (c_conversationId c)"
           "m_summary m = generateSummary rt ?c None"
           "m_importance m = Num (of_int (calculateImportance ?c))"
    and cs: "conversations_tbl w1
        = filter (\<lambda>row. c_conversationId row \<noteq> c_conversationId c) (conversations_tbl w)
          @ [c\<lparr>c_endTime := Some (rt_clock rt (dateCalls w)), c_messages := []\<rparr>]"
    by blast
  obtain recentMemories w2
    where g: "Memory_getRecent rt (limitOr10 (recentMemoriesLimit options)) w1 = (recentMemories, w2)"
    by (cases "Memory_getRecent rt (limitOr10 (recentMemoriesLimit options)) w1") auto
  from Memory_getRecent_memories[of rt "limitOr10 (recentMemoriesLimit options)" w1] g
  have t2: "memories_tbl w2 = memories_tbl w1" by simp
  from Memory_getRecent_conversations[of rt "limitOr10 (recentMemoriesLimit options)" w1] g
  have c2: "conversations_tbl w2 = conversations_tbl w1" by simp
  obtain re w3 where ev: "evolveDreamstate rt (l_persona l) recentMemories w2 = (re, w3)"
    by (cases "evolveDreamstate rt (l_persona l) recentMemories w2") auto
  from evolveDreamstate_memories[of rt "l_persona l" recentMemories w2] ev
  have t3: "memories_tbl w3 = memories_tbl w2" by simp
  from evolveDreamstate_conversations[of rt "l_persona l" recentMemories w2] ev
  have c3: "conversations_tbl w3 = conversations_tbl w2" by simp
  have awake1: "l_isAwake ?l1" "l_currentConversation ?l1 = None" using assms(1) by simp_all
  have s: "sleep rt options l w = sleep rt options ?l1 w1"
    using sleep_open_conversation[OF assms, of rt options w] e by simp
  have s1: "sleep rt options ?l1 w1 =
      (case re of
         Inl err \<Rightarrow> (Inl err, ?l1, w3)
       | Inr (dreamstateUpdate, persona) \<Rightarrow>
           (Inr (Some dreamstateUpdate),
            ?l1\<lparr>l_persona := Some persona, l_awakeningContext := None, l_isAwake := False\<rparr>,
            console_log (''Created dreamstate update ID: '' @ u_updateId dreamstateUpdate)
              (console_log ''System entered sleep state'' w3)))"
    using sleep_no_conversation[OF awake1, of rt options w1] g ev
    by (simp split: sum.splits)
  have res: "fst (sleep rt options l w) = map_sum id (Some \<circ> fst) re"
    unfolding s s1 by (simp split: sum.splits prod.splits)
  have cur: "l_currentConversation (fst (snd (sleep rt options l w))) = None"
    unfolding s s1 by (simp split: sum.splits prod.splits)
  have mem: "memories_tbl (snd (snd (sleep rt options l w))) = memories_tbl w3"
    unfolding s s1 by (simp add: console_log_def split: sum.splits prod.splits)
  have con: "conversations_tbl (snd (snd (sleep rt options l w))) = conversations_tbl w1"
    unfolding s s1 using c2 c3 by (simp add: console_log_def split: sum.splits prod.splits)
  have rows: "\<forall>row \<in> set (conversations_tbl (snd (snd (sleep rt options l w)))).
          c_conversationId row = c_conversationId c
          \<longrightarrow> c_endTime row = Some (rt_clock rt (dateCalls w))"
    unfolding con cs by auto
  have pers: "l_persona l \<noteq> None \<longrightarrow>
          \<not> l_isAwake (fst (snd (sleep rt options l w)))
          \<and> (\<exists>u. fst (sleep rt options l w) = Inr (Some u))"
  proof
    assume "l_persona l \<noteq> None"
    then obtain p where p: "l_persona l = Some p" by auto
    from evolveDreamstate_returns[of rt p recentMemories w2] ev p
    obtain u p' where "re = Inr (u, p')" by auto
    then show "\<not> l_isAwake (fst (snd (sleep rt options l w)))
          \<and> (\<exists>u. fst (sleep rt options l w) = Inr (Some u))"
      unfolding s s1 by simp
  qed
  from e m cs g t2 t3 ev res cur mem con rows pers show ?thesis
    by (intro exI[of _ m] exI[of _ ?l1] exI[of _ w1] exI[of _ recentMemories] exI[of _ w2]) simp
qed

text \<open>
  C2 fails when \<open>sleep\<close> follows \<open>awaken\<close> at once. \<open>awaken\<close> does not await
  \<open>startConversation\<close> (as \<open>startConversation\<close> and \<open>sleep\<close> await \<open>endConversation\<close>), so
  it returns with the insert of the new conversation's row, whose end time is null, in
  flight. \<open>sleep\<close> ends the conversation, saves it with its end time, stores the memory
  made from it and clears the reference: when it returns, the row carries the end time
  4000, the memory refers to the row, the controller is asleep and no conversation is
  current. When the pending insert is carried out after that save, it replaces the row:
  the conversation is stored open, without an end time, and stays so; and the rest of
  \<open>startConversation\<close>, which reads the id of the current conversation, throws an error
  that no caller receives. When the pending insert is carried out before \<open>sleep\<close> is
  called, the row keeps its end time.
\<close>

theorem sleep_after_awaken_leaves_conversation_open:
  "(let (l1, w1) = just_awakened;
        (r2, l2, w2) = sleep example_runtime no_options l1 w1;
        (l3, w3) = settle example_runtime l2 w2;
        c0 = \<lparr>c_conversationId = ''uu'', c_startTime = 3000, c_endTime = None,
              c_participants = [''user'', ''claude''], c_rawText = [], c_ctx = [],
              c_messages = []\<rparr>
    in l_isAwake l1 \<and> l_currentConversation l1 = Some c0
       \<and> inflight w1 = [StartedSave c0] \<and> conversations_tbl w1 = []
       \<and> console w1 = [Log ''Initialized with persona ID: u'',
                         Log ''System awakened successfully'']
       \<and> map_sum id (map_option u_updateId) r2 = Inr (Some ''uuuu'')
       \<and> \<not> l_isAwake l2 \<and> l_currentConversation l2 = None
       \<and> conversations_tbl w2 = [c0\<lparr>c_endTime := Some 4000\<rparr>]
       \<and> map m_conversationId (memories_tbl w2) = [Some ''uu'']
       \<and> inflight w2 = [StartedSave c0] \<and> unhandled w2 = []
       \<and> \<not> l_isAwake l3 \<and> l_currentConversation l3 = None
       \<and> conversations_tbl w3 = [c0] \<and> map c_endTime (conversations_tbl w3) = [None]
       \<and> map m_conversationId (memories_tbl w3) = [Some ''uu'']
       \<and> inflight w3 = [] \<and> unhandled w3 = [null_conversation])
   \<and> (let (l1, w1) = awake_system;
           (r2, l2, w2) = sleep example_runtime no_options l1 w1;
           (l3, w3) = settle example_runtime l2 w2
       in inflight w1 = [] \<and> map c_endTime (conversations_tbl w1) = [None]
          \<and> map c_endTime (conversations_tbl w2) = [Some 4000]
          \<and> map c_endTime (conversations_tbl w3) = [Some 4000] \<and> unhandled w3 = [])"
  by code_simp
text \<open>
  C9 as stated fails: \<open>addMessage\<close> has no check of its arguments. Called without a
  role on the awakened controller, it returns the conversation with the message
  appended, the missing role rendered as \<open>undefined\<close>.
\<close>

theorem addMessage_without_role_counterexample:
  "map_sum id (\<lambda>c. (c_rawText c, map fst (c_messages c)))
     (fst (addMessage example_runtime Undefined (Str ''hello'') (fst awake_system)
             (snd awake_system)))
   = Inr (''undefined: hello'' @ [CHR 0x0A], [Undefined])"
  by code_simp

text \<open>
  C9, amended. \<open>addMessage\<close>, the controller's operation behind recordMessage, does not
  validate its arguments. It fails, with an Error, exactly when no conversation is
  open, and then changes nothing. With a conversation open it appends the message
  whatever role and content are: a missing one is stored as it is and reads
  \<open>undefined\<close> in the raw text. A role or content that is missing or empty is refused one
  layer up, by the MCP tool handler \<open>ltm_record_message\<close>, which answers with the error
  that both are required and records nothing.
\<close>

theorem addMessage_validation:
  "(l_currentConversation l = None \<longrightarrow>
      addMessage rt role content l w
        = (Inl (Error ''No active conversation. Call startConversation() first''), l, w))
   \<and> (\<forall>c. l_currentConversation l = Some c \<longrightarrow>
         (\<exists>c' w'. addMessage rt role content l w = (Inr c', l\<lparr>l_currentConversation := Some c'\<rparr>, w')
            \<and> c_messages c' = c_messages c @ [(role, content, rt_clock rt (dateCalls w))]
            \<and> c_rawText c' = c_rawText c @ toStr role @ '': '' @ toStr content @ [CHR 0x0A]
            \<and> c'\<lparr>c_messages := []\<rparr> \<in> set (conversations_tbl w')))
   \<and> (falsy role \<or> falsy content \<longrightarrow>
        ltm_record_message rt role content l w
          = (Inl (Error ''Both role and content are required''), l,
             w\<lparr>console := console w @ [ErrorLine ''Error executing tool ltm_record_message:''
                                          (Error ''Both role and content are required'')]\<rparr>))"
  by (auto simp: addMessage_def ltm_record_message_def tool_error_def Let_def newDate_def
        Conversation_addMessage_def Conversation_save_def upsert_def)

theorem addMessage_validation_witness:
  "l_currentConversation (LTMSQL_new no_options) = None
   \<and> fst (addMessage example_runtime (Str ''user'') (Str ''hello'') (LTMSQL_new no_options)
            empty_world)
       = Inl (Error ''No active conversation. Call startConversation() first'')
   \<and> map_option c_rawText (l_currentConversation (fst awake_system)) = Some []
   \<and> map_sum id c_rawText
        (fst (addMessage example_runtime Undefined Undefined (fst awake_system) (snd awake_system)))
       = Inr (''undefined: undefined'' @ [CHR 0x0A])
   \<and> falsy Undefined
   \<and> fst (ltm_record_message example_runtime Undefined (Str ''hello'') (fst awake_system)
            (snd awake_system))
       = Inl (Error ''Both role and content are required'')"
proof -
  have h1: "l_currentConversation (LTMSQL_new no_options) = None"
    by (simp add: LTMSQL_new_def)
  have h2: "map_option c_rawText (l_currentConversation (fst awake_system)) = Some []"
    by code_simp
  then obtain c where c: "l_currentConversation (fst awake_system) = Some c" "c_rawText c = []"
    by auto
  have h3: "falsy Undefined" by (simp add: falsy_def)
  from addMessage_validation[of "LTMSQL_new no_options" example_runtime "Str ''user''"
         "Str ''hello''" empty_world]
       addMessage_validation[of "fst awake_system" example_runtime Undefined Undefined
         "snd awake_system"]
       addMessage_validation[of "fst awake_system" example_runtime Undefined "Str ''hello''"
         "snd awake_system"]
       h1 h2 h3 c
  show ?thesis by auto
qed

section \<open>PersonaEvolver\<close>





section \<open>Tag search\<close>


text \<open>
  C1 fails on the code. The memory that the system stored has the tags \<open>user\<close>,
  \<open>claude\<close> and the date. A search for the tag \<open>use\<close> returns it, because the query
  matches the pattern \<open>%use%\<close> against the JSON text of the tags column, in which
  \<open>use\<close> occurs inside \<open>"user"\<close>; the tag \<open>use\<close> is not among the memory's tags.
\<close>

theorem searchByTags_returns_untagged_memory:
  "map m_tags (memories_tbl after_sleep) = [[''user'', ''claude'', ''1970-01-01'']]
   \<and> map (\<lambda>m. (m_tags m, ''use'' \<in> set (m_tags m)))
         (fst (searchMemories example_runtime [] [''use''] None after_sleep))
       = [([''user'', ''claude'', ''1970-01-01''], False)]"
  by code_simp


text \<open>
  The other two parts of C1 hold, and the first holds for the pattern match in place of
  tag membership. The tables are written by \<open>save()\<close> only, so every stored memory has a
  non-empty id and an importance within 1..10; for such a table the objects returned
  are the selected rows themselves.
\<close>

lemma Memory_of_row_stored:
  assumes "m_memoryId row \<noteq> []" and "m_importance row = Num i" and "1 \<le> i" and "i \<le> 10"
  shows "Memory_of_row rt row w = (row, w)"
  using assms
  by (simp add: Memory_of_row_def Memory_new_def idOrFresh_def dateOrNow_def clamp_Num
        spec_clamp_def)

lemma mapW_Memory_of_row_stored:
  assumes "\<forall>r\<in>set rows. m_memoryId r \<noteq> []
             \<and> (\<exists>i. m_importance r = Num i \<and> 1 \<le> i \<and> i \<le> 10)"
  shows "mapW (Memory_of_row rt) rows w = (rows, w)"
  using assms
proof (induction rows arbitrary: w)
  case Nil
  then show ?case by simp
next
  case (Cons r rows)
  then have "Memory_of_row rt r w = (r, w)" by (auto simp: Memory_of_row_stored)
  with Cons show ?case by simp
qed

lemma set_insort_cmp: "set (insort_cmp cmp x ys) = insert x (set ys)"
  by (induction ys) auto

lemma set_sort_cmp: "set (sort_cmp cmp xs) = set xs"
  by (induction xs) (simp_all add: sort_cmp_def set_insort_cmp)

lemma distinct_insort_cmp:
  "distinct (map f (insort_cmp cmp x ys)) = (f x \<notin> f ` set ys \<and> distinct (map f ys))"
  by (induction ys) (auto simp: set_insort_cmp)

lemma distinct_sort_cmp: "distinct (map f (sort_cmp cmp xs)) = distinct (map f xs)"
proof (induction xs)
  case Nil
  then show ?case by (simp add: sort_cmp_def)
next
  case (Cons x xs)
  have "sort_cmp cmp (x # xs) = insort_cmp cmp x (sort_cmp cmp xs)" by (simp add: sort_cmp_def)
  with Cons show ?case by (simp add: distinct_insort_cmp set_sort_cmp)
qed

lemma uniqueById_subset: "set (uniqueById seen rows) \<subseteq> set rows"
  by (induction rows arbitrary: seen) auto

lemma uniqueById_unseen: "m_memoryId ` set (uniqueById seen rows) \<inter> set seen = {}"
proof (induction rows arbitrary: seen)
  case Nil
  then show ?case by simp
next
  case (Cons r rows)
  from Cons[of "seen @ [m_memoryId r]"] Cons[of seen] show ?case by auto
qed

lemma uniqueById_distinct: "distinct (map m_memoryId (uniqueById seen rows))"
proof (induction rows arbitrary: seen)
  case Nil
  then show ?case by simp
next
  case (Cons r rows)
  from uniqueById_unseen[of "seen @ [m_memoryId r]" rows]
  have "m_memoryId r \<notin> m_memoryId ` set (uniqueById (seen @ [m_memoryId r]) rows)" by auto
  with Cons show ?case by simp
qed

text \<open>The order that the comparator of \<open>searchByTags\<close> stands for, on memories whose
  importance is finite; on these the comparator is consistent.\<close>

lemma by_importance_then_timestamp_le:
  assumes "m_importance a = Num i" and "m_importance b = Num j"
  shows "(by_importance_then_timestamp a b \<le> 0) =
           (j < i \<or> (i = j \<and> m_timestamp b \<le> m_timestamp a))"
  using assms by (auto simp: by_importance_then_timestamp_def js_strict_neq_def js_sub_def)

lemma by_importance_then_timestamp_order:
  assumes "m_importance a = Num i" and "m_importance b = Num j"
  shows "(by_importance_then_timestamp a b \<le> 0) =
           (js_lt (m_importance b) (m_importance a)
            \<or> (m_importance a = m_importance b \<and> m_timestamp b \<le> m_timestamp a))"
  using assms by (auto simp: by_importance_then_timestamp_le js_lt_def)

lemma sorted_insort_importance:
  assumes "sorted_wrt (\<lambda>a b. by_importance_then_timestamp a b \<le> 0) ys"
    and "\<exists>i. m_importance x = Num i" and "\<forall>y\<in>set ys. \<exists>i. m_importance y = Num i"
  shows "sorted_wrt (\<lambda>a b. by_importance_then_timestamp a b \<le> 0)
           (insort_cmp by_importance_then_timestamp x ys)"
  using assms
proof (induction ys)
  case Nil
  then show ?case by simp
next
  case (Cons y ys)
  from Cons.prems obtain i j where i: "m_importance x = Num i" and j: "m_importance y = Num j"
    by auto
  show ?case
  proof (cases "by_importance_then_timestamp x y \<le> 0")
    case True
    have "\<forall>z\<in>set ys. by_importance_then_timestamp x z \<le> 0"
    proof
      fix z assume z: "z \<in> set ys"
      with Cons.prems obtain k where k: "m_importance z = Num k" by auto
      from z Cons.prems have "by_importance_then_timestamp y z \<le> 0" by simp
      with True show "by_importance_then_timestamp x z \<le> 0"
        unfolding by_importance_then_timestamp_le[OF i j] by_importance_then_timestamp_le[OF j k]
          by_importance_then_timestamp_le[OF i k]
        by linarith
    qed
    with True Cons.prems show ?thesis by simp
  next
    case False
    then have "by_importance_then_timestamp y x \<le> 0"
      unfolding by_importance_then_timestamp_le[OF i j] by_importance_then_timestamp_le[OF j i]
      by linarith
    with False Cons show ?thesis by (auto simp: set_insort_cmp)
  qed
qed

lemma sorted_sort_importance:
  assumes "\<forall>x\<in>set xs. \<exists>i. m_importance x = Num i"
  shows "sorted_wrt (\<lambda>a b. by_importance_then_timestamp a b \<le> 0)
           (sort_cmp by_importance_then_timestamp xs)"
  using assms
proof (induction xs)
  case Nil
  then show ?case by (simp add: sort_cmp_def)
next
  case (Cons x xs)
  have "sort_cmp by_importance_then_timestamp (x # xs)
          = insort_cmp by_importance_then_timestamp x (sort_cmp by_importance_then_timestamp xs)"
    by (simp add: sort_cmp_def)
  with Cons show ?case by (simp add: sorted_insort_importance set_sort_cmp)
qed

lemma slice0_take: "\<exists>n. slice0 xs e = take n xs"
  by (auto simp: slice0_def)

lemma searchByTags_on_stored_rows:
  assumes "\<forall>r\<in>set (memories_tbl w).
             m_memoryId r \<noteq> [] \<and> (\<exists>i. m_importance r = Num i \<and> 1 \<le> i \<and> i \<le> 10)"
  shows "distinct (map m_memoryId (fst (searchByTags rt tags limit w)))"
    and "sorted_wrt (\<lambda>a b. js_lt (m_importance b) (m_importance a)
                          \<or> (m_importance a = m_importance b \<and> m_timestamp b \<le> m_timestamp a))
           (fst (searchByTags rt tags limit w))"
    and "\<forall>m\<in>set (fst (searchByTags rt tags limit w)).
           m \<in> set (memories_tbl w)
           \<and> (\<exists>tag\<in>set tags. like (''%'' @ tag @ ''%'') (json_tags (m_tags m)))"
proof -
  let ?matches = "concat (map (\<lambda>tag. filter (\<lambda>row. like (''%'' @ tag @ ''%'') (json_tags (m_tags row)))
                                    (memories_tbl w)) tags)"
  let ?sorted = "sort_cmp by_importance_then_timestamp (uniqueById [] ?matches)"
  obtain n where n: "slice0 ?sorted limit = take n ?sorted" using slice0_take by blast
  have sub: "set (take n ?sorted) \<subseteq> set ?matches"
    using set_take_subset[of n ?sorted] uniqueById_subset[of "[]" ?matches]
    by (auto simp: set_sort_cmp)
  have m: "\<forall>m\<in>set ?matches. m \<in> set (memories_tbl w)
           \<and> (\<exists>tag\<in>set tags. like (''%'' @ tag @ ''%'') (json_tags (m_tags m)))"
    by auto
  from sub m assms
  have st: "\<forall>r\<in>set (take n ?sorted).
              m_memoryId r \<noteq> [] \<and> (\<exists>i. m_importance r = Num i \<and> 1 \<le> i \<and> i \<le> 10)"
    by blast
  then have res: "fst (searchByTags rt tags limit w) = take n ?sorted"
    using n by (simp add: searchByTags_def Let_def mapW_Memory_of_row_stored)
  have "distinct (map m_memoryId ?sorted)"
    by (simp add: distinct_sort_cmp uniqueById_distinct)
  then show "distinct (map m_memoryId (fst (searchByTags rt tags limit w)))"
    unfolding res by (simp add: distinct_take take_map[symmetric])
  have "\<forall>x\<in>set (uniqueById [] ?matches). \<exists>i. m_importance x = Num i"
    using uniqueById_subset[of "[]" ?matches] m assms by blast
  from sorted_sort_importance[OF this]
  have "sorted_wrt (\<lambda>a b. by_importance_then_timestamp a b \<le> 0) (take n ?sorted)"
    using sorted_wrt_take by blast
  then have "sorted_wrt (\<lambda>a b. js_lt (m_importance b) (m_importance a)
                          \<or> (m_importance a = m_importance b \<and> m_timestamp b \<le> m_timestamp a))
           (take n ?sorted)"
  proof (rule sorted_wrt_mono_rel[rotated])
    fix a b
    assume "a \<in> set (take n ?sorted)" "b \<in> set (take n ?sorted)"
      "by_importance_then_timestamp a b \<le> 0"
    with st obtain i j where "m_importance a = Num i" "m_importance b = Num j"
      "by_importance_then_timestamp a b \<le> 0" by blast
    then show "js_lt (m_importance b) (m_importance a)
                 \<or> (m_importance a = m_importance b \<and> m_timestamp b \<le> m_timestamp a)"
      using by_importance_then_timestamp_order[of a i b j] by simp
  qed
  then show "sorted_wrt (\<lambda>a b. js_lt (m_importance b) (m_importance a)
                          \<or> (m_importance a = m_importance b \<and> m_timestamp b \<le> m_timestamp a))
           (fst (searchByTags rt tags limit w))"
    unfolding res .
  from sub m show "\<forall>m\<in>set (fst (searchByTags rt tags limit w)).
           m \<in> set (memories_tbl w)
           \<and> (\<exists>tag\<in>set tags. like (''%'' @ tag @ ''%'') (json_tags (m_tags m)))"
    unfolding res by blast
qed

end
